theory Spec2Isabelle
  imports Complex_Main "HOL-Library.Word"
begin

unbundle bit_operations_syntax

section \<open>Deep Space Explorer: the game core of the repository\<close>

text \<open>
  The development embeds three source files of the Phaser game under
  \<^verbatim>\<open>phaser-space-explorer/src\<close>: \<^verbatim>\<open>SectorFactory.js\<close> (the seeded sector
  generator), \<^verbatim>\<open>EncounterDirector.js\<close> (the timed spawner) and \<^verbatim>\<open>PlayScene.js\<close>
  (the gameplay scene). JavaScript numbers are modelled as \<^typ>\<open>real\<close>; the 32-bit
  integer operations of the generator (\<^verbatim>\<open>|0\<close>, \<^verbatim>\<open>>>>\<close>, \<^verbatim>\<open>^\<close>, \<^verbatim>\<open>Math.imul\<close>) as
  operations on \<^typ>\<open>32 word\<close>. Game objects are records carrying an identifier, a
  group is the list of its members in insertion order, and destroying an object removes
  it from its group. Everything a method does besides changing fields (events emitted on
  the scene's emitter, operations queued on the scene manager, delayed calls registered
  with the scene clock) is kept in the scene record as a list.
\<close>

subsection \<open>Data\<close>

text \<open>\<^verbatim>\<open>window.GFX\<close>; \<^verbatim>\<open>encounterPeriod\<close> may be absent.\<close>

record gfx =
  bloom :: bool
  vignette :: bool
  particles :: real
  encounterPeriod :: "real option"

record enemy =
  eid :: nat
  ex :: real
  ey :: real
  evx :: real
  evy :: real
  etype :: string
  ehp :: int

record bullet =
  bid :: nat
  bx :: real
  by' :: real
  bvx :: real
  bvy :: real
  bactive :: bool
  bvisible :: bool

text \<open>A member of \<^verbatim>\<open>this.planets\<close>: a planet sprite or its ring.\<close>

record sprite =
  sx :: real
  sy :: real
  sscale :: real
  stint :: nat
  salpha :: real
  srotation :: real
  skey :: string

record star =
  star_x :: real
  star_y :: real
  star_depth :: real

record planet =
  planet_x :: real
  planet_y :: real
  planet_scale :: real
  planet_tint :: nat

record galaxy =
  galaxy_x :: real
  galaxy_y :: real
  galaxy_scale :: real
  galaxy_rot :: real

record nebula =
  nebula_x :: real
  nebula_y :: real
  nebula_color :: nat
  nebula_alpha :: real

record weights =
  w_scout :: real
  w_tank :: real
  w_pulsar :: real

record sector =
  name :: string
  stars :: "star list list"
  galaxies :: "galaxy list"
  nebulae :: "nebula list"
  planets :: "planet list"
  belts :: "unit list"
  stations :: "unit list"
  anomalies :: "unit list"
  tint :: nat
  ambient :: string
  encounterWeights :: weights

subsection \<open>SectorFactory.js\<close>

text \<open>
  \<^verbatim>\<open>mulberry32(a)\<close> returns a closure over \<^verbatim>\<open>a\<close>. The first statement of every call
  is \<^verbatim>\<open>a |= 0\<close>, so the captured variable is a 32-bit integer from the first call on;
  the state of the closure is a \<^typ>\<open>32 word\<close> and the initial state is the seed
  converted by \<^verbatim>\<open>ToInt32\<close>. One call maps the state to the new state and the number
  returned.
\<close>

definition mulberry32_init :: "int \<Rightarrow> 32 word" where
  "mulberry32_init seed = word_of_int seed"

definition mulberry32 :: "32 word \<Rightarrow> real \<times> 32 word" where
  "mulberry32 a0 =
     (let a = a0 + 0x6D2B79F5;
          t = (a XOR drop_bit 15 a) * (1 OR a);
          t' = (t + (t XOR drop_bit 7 t) * (61 OR t)) XOR t
      in (real_of_int (uint (t' XOR drop_bit 14 t')) / 4294967296, a))"

text \<open>
  The state of one invocation of the factory: the closure \<^verbatim>\<open>rand\<close>, and the number of
  calls made so far to \<^verbatim>\<open>Phaser.Display.Color.RandomRGB()\<close>. That function belongs to
  the framework and draws from the page's \<^verbatim>\<open>Math.random\<close>, not from \<^verbatim>\<open>rand\<close>; the
  colours it returns are a parameter \<open>rgb\<close> of the model, \<open>rgb k\<close> being the \<^verbatim>\<open>.color\<close>
  of the \<open>k\<close>-th call of this invocation.
\<close>

type_synonym gen = "32 word \<times> nat"

definition rand :: "gen \<Rightarrow> real \<times> gen" where
  "rand g = (case mulberry32 (fst g) of (r, a) \<Rightarrow> (r, (a, snd g)))"

definition RandomRGB :: "(nat \<Rightarrow> nat) \<Rightarrow> gen \<Rightarrow> nat \<times> gen" where
  "RandomRGB rgb g = (rgb (snd g), (fst g, Suc (snd g)))"

text \<open>A \<^verbatim>\<open>for\<close> loop that pushes one element per iteration, \<open>n\<close> iterations.\<close>

fun push_loop :: "nat \<Rightarrow> (gen \<Rightarrow> 'a \<times> gen) \<Rightarrow> gen \<Rightarrow> 'a list \<times> gen" where
  "push_loop 0 body g = ([], g)"
| "push_loop (Suc n) body g =
     (case body g of (x, g1) \<Rightarrow>
        (case push_loop n body g1 of (xs, g2) \<Rightarrow> (x # xs, g2)))"

definition new_star :: "nat \<Rightarrow> gen \<Rightarrow> star \<times> gen" where
  "new_star l g =
     (case rand g of (r1, g1) \<Rightarrow>
      case rand g1 of (r2, g2) \<Rightarrow>
        (\<lparr>star_x = r1 * 2000 - 1000, star_y = r2 * 2000 - 1000,
          star_depth = 0.2 + real l * 0.3\<rparr>, g2))"

definition new_layer :: "nat \<Rightarrow> gen \<Rightarrow> star list \<times> gen" where
  "new_layer l g = push_loop 200 (new_star l) g"

definition new_planet :: "(nat \<Rightarrow> nat) \<Rightarrow> gen \<Rightarrow> planet \<times> gen" where
  "new_planet rgb g =
     (case rand g of (r1, g1) \<Rightarrow>
      case rand g1 of (r2, g2) \<Rightarrow>
      case rand g2 of (r3, g3) \<Rightarrow>
      case RandomRGB rgb g3 of (c, g4) \<Rightarrow>
        (\<lparr>planet_x = r1 * 1600 - 800, planet_y = r2 * 1200 - 600,
          planet_scale = 0.5 + r3, planet_tint = c\<rparr>, g4))"

definition new_galaxy :: "gen \<Rightarrow> galaxy \<times> gen" where
  "new_galaxy g =
     (case rand g of (r1, g1) \<Rightarrow>
      case rand g1 of (r2, g2) \<Rightarrow>
      case rand g2 of (r3, g3) \<Rightarrow>
      case rand g3 of (r4, g4) \<Rightarrow>
        (\<lparr>galaxy_x = r1 * 1800 - 900, galaxy_y = r2 * 1400 - 700,
          galaxy_scale = 0.6 + r3 * 0.5, galaxy_rot = r4 * 360\<rparr>, g4))"

definition new_nebula :: "(nat \<Rightarrow> nat) \<Rightarrow> gen \<Rightarrow> nebula \<times> gen" where
  "new_nebula rgb g =
     (case rand g of (r1, g1) \<Rightarrow>
      case rand g1 of (r2, g2) \<Rightarrow>
      case RandomRGB rgb g2 of (c, g3) \<Rightarrow>
      case rand g3 of (r3, g4) \<Rightarrow>
        (\<lparr>nebula_x = r1 * 1600 - 800, nebula_y = r2 * 1200 - 600,
          nebula_color = c, nebula_alpha = 0.2 + r3 * 0.3\<rparr>, g4))"

text \<open>
  \<^verbatim>\<open>'Sector ' + seed\<close>: the decimal numeral of the seed (JavaScript prints an integer
  below \<open>10\<^sup>2\<^sup>1\<close> in magnitude this way).
\<close>

fun string_of_nat :: "nat \<Rightarrow> string" where
  "string_of_nat n =
     (if n < 10 then [char_of (48 + n)]
      else string_of_nat (n div 10) @ [char_of (48 + n mod 10)])"

declare string_of_nat.simps [simp del]

definition string_of_int :: "int \<Rightarrow> string" where
  "string_of_int i = (if i < 0 then CHR ''-'' # string_of_nat (nat (- i)) else string_of_nat (nat i))"

definition default_weights :: weights where
  "default_weights = \<lparr>w_scout = 0.7, w_tank = 0.2, w_pulsar = 0.1\<rparr>"

text \<open>The outer star loop runs for \<open>l = 0, 1, 2\<close>; its three iterations are written out.\<close>

definition SectorFactory :: "int \<Rightarrow> (nat \<Rightarrow> nat) \<Rightarrow> sector" where
  "SectorFactory seed rgb =
     (let g0 = (mulberry32_init seed, 0 :: nat);
          (l0, g0a) = new_layer 0 g0;
          (l1, g0b) = new_layer 1 g0a;
          (l2, g1) = new_layer 2 g0b;
          (rp, g2) = rand g1;
          planetCount = 1 + nat \<lfloor>rp * 2\<rfloor>;
          (ps, g3) = push_loop planetCount (new_planet rgb) g2;
          (rg, g4) = rand g3;
          galaxyCount = nat \<lfloor>rg * 2\<rfloor>;
          (gs, g5) = push_loop galaxyCount new_galaxy g4;
          (rn, g6) = rand g5;
          nebulaCount = 1 + nat \<lfloor>rn * 2\<rfloor>;
          (ns, g7) = push_loop nebulaCount (new_nebula rgb) g6
      in \<lparr>name = ''Sector '' @ string_of_int seed,
          stars = [l0, l1, l2],
          galaxies = gs,
          nebulae = ns,
          planets = ps,
          belts = [],
          stations = [],
          anomalies = [],
          tint = 0xFFFFFF,
          ambient = ''deep'',
          encounterWeights = default_weights\<rparr>)"

text \<open>The fields of a planet and of a nebula that are computed from \<^verbatim>\<open>rand()\<close> alone.\<close>

definition planet_geometry :: "planet \<Rightarrow> real \<times> real \<times> real" where
  "planet_geometry p = (planet_x p, planet_y p, planet_scale p)"

definition nebula_geometry :: "nebula \<Rightarrow> real \<times> real \<times> real" where
  "nebula_geometry n = (nebula_x n, nebula_y n, nebula_alpha n)"

subsection \<open>The scene\<close>

text \<open>
  What the page and the framework supply from outside the repository: the colours of
  successive \<^verbatim>\<open>Phaser.Display.Color.RandomRGB()\<close> calls, the values of successive
  \<^verbatim>\<open>Math.random()\<close> calls, the behaviour of successive
  \<^verbatim>\<open>Phaser.Math.RND.weightedPick\<close> calls (a function of the array passed, the
  only argument the call gives it) and \<^verbatim>\<open>Date.now()\<close>. The scene counts the calls it
  has made to each.
\<close>

record host =
  randomRGB :: "nat \<Rightarrow> nat"
  math_random :: "nat \<Rightarrow> real"
  weightedPick :: "nat \<Rightarrow> string list \<Rightarrow> string"
  date_now :: int

text \<open>The payload of an \<^verbatim>\<open>updateHud\<close> event has optional fields.\<close>

datatype event =
  UpdateHud "int option" "int option" "string option"
| Photo bool

text \<open>Calls on \<^verbatim>\<open>this.scene\<close>, which the scene manager queues.\<close>

datatype scene_op = SceneStop string | SceneStart string | ScenePause

record delayed_call =
  dc_delay :: real
  dc_elapsed :: real

record ring =
  ring_visible :: bool
  ring_x :: real
  ring_y :: real
  ring_radius :: real

record emitter =
  em_quantity :: int
  em_speedY :: real
  em_scale :: real

record rectangle =
  rect_x :: real
  rect_y :: real
  rect_w :: real
  rect_h :: real
  rect_color :: nat
  rect_alpha :: real

record pad =
  axis0 :: real
  axis1 :: real
  button0 :: bool
  button2 :: bool
  button4 :: bool

text \<open>
  What \<^verbatim>\<open>update\<close> reads from the input plugins in one frame: \<^verbatim>\<open>isDown\<close> of the
  movement keys, \<^verbatim>\<open>JustDown\<close> of the action keys, and \<^verbatim>\<open>this.pad\<close>.
\<close>

record input =
  cursor_left :: bool
  cursor_right :: bool
  cursor_up :: bool
  cursor_down :: bool
  key_W :: bool
  key_A :: bool
  key_S :: bool
  key_D :: bool
  just_SPACE :: bool
  just_E :: bool
  just_SHIFT :: bool
  just_O :: bool
  just_ESC :: bool
  gamepad :: "pad option"

text \<open>
  The fields of \<^verbatim>\<open>PlayScene\<close> and of its \<^verbatim>\<open>EncounterDirector\<close> (\<open>timer\<close>).
  \<open>p_hull\<close>, \<open>p_shield\<close> and \<open>p_discoveries\<close> are the player's data values
  \<^verbatim>\<open>hull\<close>, \<^verbatim>\<open>shield\<close> and \<^verbatim>\<open>discoveries\<close>. \<open>bullets_maxSize\<close> is the \<^verbatim>\<open>maxSize\<close>
  of the bullet group, \<open>-1\<close> meaning no limit. Audio nodes, the shield's circle and
  the scan ring's tween are decoration and are left out.
\<close>

record scene =
  width :: real
  height :: real
  player_x :: real
  player_y :: real
  player_vx :: real
  player_vy :: real
  p_hull :: int
  p_shield :: bool
  p_discoveries :: int
  bullets :: "bullet list"
  bullets_maxSize :: int
  enemies :: "enemy list"
  seed :: int
  the_sector :: sector
  starGroup :: "emitter list"
  planet_group :: "sprite list"
  nebula_group :: "rectangle list"
  scanRing :: ring
  timer :: real
  photo :: bool
  bloom_intensity :: real
  events :: "event list"
  ops :: "scene_op list"
  delayed :: "delayed_call list"
  next_id :: nat
  n_rgb :: nat
  n_random :: nat
  n_pick :: nat

subsection \<open>EncounterDirector.js\<close>

text \<open>
  The sprite that one pass of the loop in \<^verbatim>\<open>spawn\<close> creates and puts into the local
  group, which is a plain group.
\<close>

definition new_enemy :: "scene \<Rightarrow> string \<Rightarrow> nat \<Rightarrow> enemy" where
  "new_enemy s type i =
     \<lparr>eid = next_id s + i,
      ex = width s / 2 + (real i - 1) * 40, ey = - 50,
      evx = 0, evy = 40 + real i * 10,
      etype = type,
      ehp = (if type = ''tank'' then 4 else 2)\<rparr>"

text \<open>
  \<^verbatim>\<open>this.scene.enemies\<close> is an Arcade physics group. When a sprite is added to such a
  group, the framework applies the group's defaults to the sprite's body, and the
  defaults of a group made without configuration set the velocity to \<open>(0, 0)\<close>. The
  other defaults (acceleration, bounce, drag, gravity, mass and so on) concern body
  properties that the enemy record does not hold.
\<close>

definition physics_group_defaults :: "enemy \<Rightarrow> enemy" where
  "physics_group_defaults e = e\<lparr>evx := 0, evy := 0\<rparr>"

definition addMultiple :: "enemy list \<Rightarrow> enemy list \<Rightarrow> enemy list" where
  "addMultiple children members = members @ map physics_group_defaults children"

definition spawn :: "host \<Rightarrow> scene \<Rightarrow> scene" where
  "spawn h s =
     (let type = weightedPick h (n_pick s) [''scout'', ''tank'', ''pulsar''];
          group = map (new_enemy s type) [0..<3]
      in s\<lparr>enemies := addMultiple group (enemies s),
            next_id := next_id s + 3,
            n_pick := Suc (n_pick s)\<rparr>)"

text \<open>\<^verbatim>\<open>window.GFX.encounterPeriod || 15000\<close>: an absent or zero period is falsy.\<close>

definition period :: "gfx \<Rightarrow> real" where
  "period g = (case encounterPeriod g of None \<Rightarrow> 15000
                | Some p \<Rightarrow> if p = 0 then 15000 else p)"

definition director_update :: "host \<Rightarrow> gfx \<Rightarrow> real \<Rightarrow> scene \<Rightarrow> scene" where
  "director_update h g delta s =
     (let s1 = s\<lparr>timer := timer s + delta\<rparr>
      in if timer s1 > period g then spawn h (s1\<lparr>timer := 0\<rparr>) else s1)"

subsection \<open>PlayScene.js\<close>

text \<open>
  \<^verbatim>\<open>Group.get(x, y, key)\<close> of the framework: the first inactive member is moved to
  \<open>(x, y)\<close> and returned; when there is none, a new member is created and added unless
  the group is full (\<^verbatim>\<open>maxSize\<close> is not \<open>-1\<close> and the group has that many members), in
  which case the result is \<^verbatim>\<open>null\<close>. The result is the identifier of the member and
  the group after the call.
\<close>

definition group_get ::
  "int \<Rightarrow> nat \<Rightarrow> real \<Rightarrow> real \<Rightarrow> bullet list \<Rightarrow> (nat \<times> bullet list) option" where
  "group_get maxSize fresh x y bs =
     (case find (\<lambda>b. \<not> bactive b) bs of
        Some m \<Rightarrow> Some (bid m, map (\<lambda>b. if bid b = bid m then b\<lparr>bx := x, by' := y\<rparr> else b) bs)
      | None \<Rightarrow>
          if maxSize \<noteq> - 1 \<and> maxSize \<le> int (length bs) then None
          else Some (fresh, bs @ [\<lparr>bid = fresh, bx = x, by' = y, bvx = 0, bvy = 0,
                                   bactive = True, bvisible = True\<rparr>]))"

definition fire :: "scene \<Rightarrow> scene" where
  "fire s =
     (case group_get (bullets_maxSize s) (next_id s) (player_x s) (player_y s - 20) (bullets s) of
        None \<Rightarrow> s
      | Some (i, bs) \<Rightarrow>
          s\<lparr>bullets := map (\<lambda>b. if bid b = i
                                then b\<lparr>bactive := True, bvisible := True,
                                       bx := player_x s, by' := player_y s - 20,
                                       bvx := 0, bvy := - 300\<rparr>
                                else b) bs,
            next_id := Suc (next_id s)\<rparr>)"

definition planet_sprite :: "planet \<Rightarrow> sprite" where
  "planet_sprite p =
     \<lparr>sx = planet_x p, sy = planet_y p, sscale = planet_scale p, stint = planet_tint p,
      salpha = 1, srotation = 0, skey = ''planet''\<rparr>"

definition ring_sprite :: "planet \<Rightarrow> real \<Rightarrow> sprite" where
  "ring_sprite p r =
     \<lparr>sx = planet_x p, sy = planet_y p, sscale = planet_scale p * 1.2, stint = 0xffffff,
      salpha = 0.4, srotation = r, skey = ''ring''\<rparr>"

text \<open>The \<^verbatim>\<open>forEach\<close> over the planets; \<open>k\<close> counts the \<^verbatim>\<open>Math.random()\<close> calls.\<close>

fun planet_sprites :: "host \<Rightarrow> nat \<Rightarrow> planet list \<Rightarrow> sprite list" where
  "planet_sprites h k [] = []"
| "planet_sprites h k (p # ps) =
     planet_sprite p # ring_sprite p (math_random h k) # planet_sprites h (Suc k) ps"

definition nebula_rect :: "nebula \<Rightarrow> rectangle" where
  "nebula_rect n =
     \<lparr>rect_x = nebula_x n, rect_y = nebula_y n, rect_w = 400, rect_h = 300,
      rect_color = nebula_color n, rect_alpha = nebula_alpha n\<rparr>"

definition star_emitter :: "gfx \<Rightarrow> nat \<Rightarrow> emitter" where
  "star_emitter g i =
     \<lparr>em_quantity = \<lfloor>80 * particles g\<rfloor>, em_speedY = 20 * (real i + 1),
      em_scale = 0.1 + real i * 0.2\<rparr>"

definition loadSector :: "host \<Rightarrow> gfx \<Rightarrow> int \<Rightarrow> scene \<Rightarrow> scene" where
  "loadSector h g sd s =
     (let sec = SectorFactory sd (\<lambda>k. randomRGB h (n_rgb s + k))
      in s\<lparr>the_sector := sec,
            starGroup := map (star_emitter g) [0..<length (stars sec)],
            planet_group := planet_sprites h (n_random s) (planets sec),
            nebula_group := map nebula_rect (nebulae sec),
            n_rgb := n_rgb s + length (planets sec) + length (nebulae sec),
            n_random := n_random s + length (planets sec)\<rparr>)"

text \<open>
  The remainder operator of JavaScript takes the sign of the dividend. The product
  \<^verbatim>\<open>seed*16807\<close> is exact in a double for every seed below \<open>2\<^sup>3\<^sup>1\<close>.
\<close>

definition js_rem :: "int \<Rightarrow> int \<Rightarrow> int" where
  "js_rem a b = sgn a * (\<bar>a\<bar> mod \<bar>b\<bar>)"

definition jumpSector :: "host \<Rightarrow> gfx \<Rightarrow> scene \<Rightarrow> scene" where
  "jumpSector h g s =
     (let s1 = s\<lparr>seed := js_rem (seed s * 16807) 2147483647\<rparr>;
          s2 = loadSector h g (seed s1) s1
      in s2\<lparr>events := events s2 @ [UpdateHud None None (Some (name (the_sector s2)))]\<rparr>)"

definition Distance_Between :: "real \<Rightarrow> real \<Rightarrow> real \<Rightarrow> real \<Rightarrow> real" where
  "Distance_Between x1 y1 x2 y2 = sqrt ((x1 - x2) * (x1 - x2) + (y1 - y2) * (y1 - y2))"

definition scan :: "host \<Rightarrow> gfx \<Rightarrow> scene \<Rightarrow> scene" where
  "scan h g s =
     (let s1 = s\<lparr>scanRing := \<lparr>ring_visible = True, ring_x = player_x s, ring_y = player_y s,
                               ring_radius = 10\<rparr>\<rparr>;
          found = foldl (\<lambda>found p.
                    if Distance_Between (player_x s1) (player_y s1) (sx p) (sy p) < 150
                    then True else found) False (planet_group s1)
      in if found then
           (let s2 = s1\<lparr>p_discoveries := p_discoveries s1 + 1\<rparr>;
                s3 = s2\<lparr>events := events s2 @ [UpdateHud (Some (p_discoveries s2)) None None]\<rparr>
            in if p_discoveries s3 mod 5 = 0 then jumpSector h g s3 else s3)
         else s1)"

definition shield :: "scene \<Rightarrow> scene" where
  "shield s =
     (if p_shield s then s
      else s\<lparr>p_shield := True,
             delayed := delayed s @ [\<lparr>dc_delay = 300, dc_elapsed = 0\<rparr>]\<rparr>)"

definition gameOver :: "scene \<Rightarrow> scene" where
  "gameOver s = s\<lparr>ops := ops s @ [SceneStop ''HUD'', SceneStart ''Title'']\<rparr>"

text \<open>The callbacks receive game objects; the model passes their identifiers.\<close>

definition playerHit :: "nat \<Rightarrow> scene \<Rightarrow> scene" where
  "playerHit e s =
     (let s1 = s\<lparr>enemies := filter (\<lambda>x. eid x \<noteq> e) (enemies s)\<rparr>
      in if p_shield s1 then s1
         else
           (let s2 = s1\<lparr>p_hull := p_hull s1 - 1\<rparr>;
                s3 = s2\<lparr>events := events s2 @ [UpdateHud None (Some (p_hull s2)) None]\<rparr>
            in if p_hull s3 \<le> 0 then gameOver s3 else s3))"

definition hitEnemy :: "nat \<Rightarrow> nat \<Rightarrow> scene \<Rightarrow> scene" where
  "hitEnemy b e s =
     (let s1 = s\<lparr>bullets := filter (\<lambda>x. bid x \<noteq> b) (bullets s)\<rparr>;
          s2 = s1\<lparr>enemies := map (\<lambda>x. if eid x = e then x\<lparr>ehp := ehp x - 1\<rparr> else x)
                                (enemies s1)\<rparr>
      in if list_ex (\<lambda>x. eid x = e \<and> ehp x \<le> 0) (enemies s2) then
           (let s3 = s2\<lparr>enemies := filter (\<lambda>x. eid x \<noteq> e) (enemies s2)\<rparr>;
                s4 = s3\<lparr>p_discoveries := p_discoveries s3 + 1\<rparr>
            in s4\<lparr>events := events s4 @ [UpdateHud (Some (p_discoveries s4)) None None]\<rparr>)
         else s2)"

definition togglePhoto :: "scene \<Rightarrow> scene" where
  "togglePhoto s =
     (let s1 = s\<lparr>photo := \<not> photo s\<rparr>;
          s2 = s1\<lparr>bloom_intensity := (if photo s1 then 1.2 else 0.6)\<rparr>
      in s2\<lparr>events := events s2 @ [Photo (photo s2)]\<rparr>)"

text \<open>
  \<^verbatim>\<open>create\<close>, for a canvas of the given size. Both groups are made by
  \<^verbatim>\<open>this.physics.add.group()\<close> with no configuration, so the bullet group has the
  framework's default \<^verbatim>\<open>maxSize\<close> of \<open>-1\<close>. The bloom pipeline starts with the
  intensity its constructor sets. The sector fields that \<^verbatim>\<open>create\<close> has not assigned
  before it calls \<^verbatim>\<open>loadSector\<close> hold placeholders, which \<^verbatim>\<open>loadSector\<close> overwrites.
\<close>

definition create :: "host \<Rightarrow> gfx \<Rightarrow> real \<Rightarrow> real \<Rightarrow> scene" where
  "create h g w ht =
     (let s0 = \<lparr>width = w, height = ht,
                player_x = w / 2, player_y = ht * 0.7, player_vx = 0, player_vy = 0,
                p_hull = 3, p_shield = False, p_discoveries = 0,
                bullets = [], bullets_maxSize = - 1,
                enemies = [],
                seed = date_now h AND 0xffff,
                the_sector = SectorFactory 0 (\<lambda>k. 0),
                starGroup = [], planet_group = [], nebula_group = [],
                scanRing = \<lparr>ring_visible = False, ring_x = 0, ring_y = 0, ring_radius = 10\<rparr>,
                timer = 0,
                photo = False, bloom_intensity = 0.6,
                events = [], ops = [], delayed = [],
                next_id = 0, n_rgb = 0, n_random = 0, n_pick = 0\<rparr>;
          s1 = loadSector h g (seed s0) s0
      in s1\<lparr>events := events s1 @ [UpdateHud (Some 0) (Some 3) (Some (name (the_sector s1)))]\<rparr>)"

text \<open>
  A method that can throw returns an outcome: the scene when it returned, or the scene
  as it was when a \<^verbatim>\<open>TypeError\<close> was thrown. What the method had changed before the
  exception stays changed.
\<close>

datatype 'a outcome = Completed 'a | TypeError 'a

fun state_of :: "'a outcome \<Rightarrow> 'a" where
  "state_of (Completed x) = x"
| "state_of (TypeError x) = x"

text \<open>
  The bullet cleanup, \<^verbatim>\<open>this.bullets.children.iterate(b=>{ if(b.y<-50) b.destroy(); })\<close>.
  The framework's \<^verbatim>\<open>Set.iterate\<close> reads the length of the entries array once and then
  calls the callback on the entries at the indices below that length. \<^verbatim>\<open>destroy\<close>
  takes the bullet out of the array, so the entries behind it move down by one place; at
  an index that is no longer in the array the callback receives \<^verbatim>\<open>undefined\<close>, and
  reading its \<^verbatim>\<open>y\<close> throws. \<open>cleanup_loop n i bs\<close> has \<open>n\<close> passes to go, the next at
  index \<open>i\<close>.
\<close>

fun cleanup_loop :: "nat \<Rightarrow> nat \<Rightarrow> bullet list \<Rightarrow> bullet list outcome" where
  "cleanup_loop 0 i bs = Completed bs"
| "cleanup_loop (Suc n) i bs =
     (if length bs \<le> i then TypeError bs
      else if by' (bs ! i) < - 50
           then cleanup_loop n (Suc i) (take i bs @ drop (Suc i) bs)
           else cleanup_loop n (Suc i) bs)"

definition cleanup :: "scene \<Rightarrow> scene outcome" where
  "cleanup s =
     (case cleanup_loop (length (bullets s)) 0 (bullets s) of
        Completed bs \<Rightarrow> Completed (s\<lparr>bullets := bs\<rparr>)
      | TypeError bs \<Rightarrow> TypeError (s\<lparr>bullets := bs\<rparr>))"

text \<open>
  \<^verbatim>\<open>update(time, delta)\<close>, statement by statement. With a pad connected, the pad's
  axes are read and the pad's fire button is served; the next statement reads
  \<^verbatim>\<open>Phaser.Input.Gamepad.Configs.XBOX_ONE.LB\<close>. The framework's \<^verbatim>\<open>Configs\<close> has the
  entries \<^verbatim>\<open>DUALSHOCK_4\<close>, \<^verbatim>\<open>SNES_USB\<close> and \<^verbatim>\<open>XBOX_360\<close> only, so
  \<^verbatim>\<open>Configs.XBOX_ONE\<close> is \<^verbatim>\<open>undefined\<close> and the read throws: nothing after it runs.
\<close>

definition update :: "host \<Rightarrow> gfx \<Rightarrow> input \<Rightarrow> real \<Rightarrow> scene \<Rightarrow> scene outcome" where
  "update h g inp delta s =
     (let speed = 200;
          vx = (if cursor_left inp \<or> key_A inp then - speed
                else if cursor_right inp \<or> key_D inp then speed else 0);
          vy = (if cursor_up inp \<or> key_W inp then - speed
                else if cursor_down inp \<or> key_S inp then speed else 0)
      in case gamepad inp of
           Some p \<Rightarrow>
             (let vx = axis0 p * speed;
                  vy = axis1 p * speed;
                  s = (if button0 p then fire s else s)
              in TypeError s)
         | None \<Rightarrow>
             (let s = s\<lparr>player_vx := vx, player_vy := vy\<rparr>;
                  s = (if just_SPACE inp then fire s else s);
                  s = (if just_E inp then scan h g s else s);
                  s = (if just_SHIFT inp then shield s else s);
                  s = (if just_O inp then togglePhoto s else s);
                  s = (if just_ESC inp then s\<lparr>ops := ops s @ [ScenePause]\<rparr> else s)
              in case cleanup s of
                   TypeError s \<Rightarrow> TypeError s
                 | Completed s \<Rightarrow> Completed (director_update h g delta s)))"

subsection \<open>The frame loop of the framework\<close>

text \<open>
  The callers of the scene's methods are in the framework. Its scene clock adds the
  frame's delta to every pending delayed call and runs the callbacks that are due; the
  only delayed call of the scene is the one \<^verbatim>\<open>shield\<close> registers, whose callback
  clears the shield flag. Its physics world then reports the overlaps of the frame to
  the two callbacks \<^verbatim>\<open>create\<close> registered, one call per overlapping pair of live
  objects. \<^verbatim>\<open>update\<close> runs after that. Operations on \<^verbatim>\<open>this.scene\<close> take effect
  before the next frame: once one is queued, the scene receives no further frame. When
  \<^verbatim>\<open>update\<close> throws, the frame ends with the scene as the exception left it; the frames
  that follow, if the browser still delivers any, start from that scene.
\<close>

definition clock_update :: "real \<Rightarrow> scene \<Rightarrow> scene" where
  "clock_update delta s =
     (let cs = map (\<lambda>c. c\<lparr>dc_elapsed := dc_elapsed c + delta\<rparr>) (delayed s);
          due = filter (\<lambda>c. dc_delay c \<le> dc_elapsed c) cs
      in s\<lparr>delayed := filter (\<lambda>c. \<not> dc_delay c \<le> dc_elapsed c) cs,
            p_shield := (if due = [] then p_shield s else False)\<rparr>)"

datatype overlap = BulletEnemy nat nat | PlayerEnemy nat

fun collide :: "scene \<Rightarrow> overlap \<Rightarrow> scene" where
  "collide s (BulletEnemy b e) =
     (if list_ex (\<lambda>x. bid x = b) (bullets s) \<and> list_ex (\<lambda>x. eid x = e) (enemies s)
      then hitEnemy b e s else s)"
| "collide s (PlayerEnemy e) =
     (if list_ex (\<lambda>x. eid x = e) (enemies s) then playerHit e s else s)"

record frame =
  f_delta :: real
  f_overlaps :: "overlap list"
  f_input :: input

definition step_frame :: "host \<Rightarrow> gfx \<Rightarrow> scene \<Rightarrow> frame \<Rightarrow> scene" where
  "step_frame h g s f =
     state_of (update h g (f_input f) (f_delta f)
       (foldl collide (clock_update (f_delta f) s) (f_overlaps f)))"

fun run :: "host \<Rightarrow> gfx \<Rightarrow> scene \<Rightarrow> frame list \<Rightarrow> scene" where
  "run h g s [] = s"
| "run h g s (f # fs) = (if ops s = [] then run h g (step_frame h g s f) fs else s)"

subsection \<open>Observations on a session\<close>

text \<open>The number of transitions to the title scene that \<^verbatim>\<open>gameOver\<close> has requested.\<close>

definition game_overs :: "scene \<Rightarrow> nat" where
  "game_overs s = count_list (ops s) (SceneStart ''Title'')"

fun is_player_overlap :: "overlap \<Rightarrow> bool" where
  "is_player_overlap (PlayerEnemy e) = True"
| "is_player_overlap (BulletEnemy b e) = False"

definition player_overlaps :: "frame \<Rightarrow> nat" where
  "player_overlaps f = length (filter is_player_overlap (f_overlaps f))"

text \<open>
  The bullet group as \<^verbatim>\<open>create\<close> and \<^verbatim>\<open>fire\<close> leave it: no size limit, every
  member active, every identifier already issued.
\<close>

definition pool_inv :: "scene \<Rightarrow> bool" where
  "pool_inv s =
     (bullets_maxSize s = - 1 \<and> list_all (\<lambda>b. bactive b \<and> bid b < next_id s) (bullets s))"

subsection \<open>The phases of \<^verbatim>\<open>update\<close>, and the order the specification gives\<close>

definition move_velocity :: "input \<Rightarrow> real \<times> real" where
  "move_velocity inp =
     (if cursor_left inp \<or> key_A inp then - 200
      else if cursor_right inp \<or> key_D inp then 200 else 0,
      if cursor_up inp \<or> key_W inp then - 200
      else if cursor_down inp \<or> key_S inp then 200 else 0)"

definition set_velocity :: "input \<Rightarrow> scene \<Rightarrow> scene" where
  "set_velocity inp s =
     s\<lparr>player_vx := fst (move_velocity inp), player_vy := snd (move_velocity inp)\<rparr>"

definition key_actions :: "host \<Rightarrow> gfx \<Rightarrow> input \<Rightarrow> scene \<Rightarrow> scene" where
  "key_actions h g inp s =
     (let s1 = (if just_SPACE inp then fire s else s);
          s2 = (if just_E inp then scan h g s1 else s1);
          s3 = (if just_SHIFT inp then shield s2 else s2);
          s4 = (if just_O inp then togglePhoto s3 else s3)
      in if just_ESC inp then s4\<lparr>ops := ops s4 @ [ScenePause]\<rparr> else s4)"

text \<open>What the cleanup leaves when it returns: the projectiles not beyond the bound.\<close>

definition in_bounds :: "scene \<Rightarrow> scene" where
  "in_bounds s = s\<lparr>bullets := filter (\<lambda>b. \<not> by' b < - 50) (bullets s)\<rparr>"

text \<open>
  The order of the specification for the steps that \<^verbatim>\<open>update\<close> performs, on keyboard
  input: input resolution, the encounter director's tick, the cleanup (which destroys
  every projectile beyond the bound), and the action effects last.
\<close>

definition spec_order_tick :: "host \<Rightarrow> gfx \<Rightarrow> input \<Rightarrow> real \<Rightarrow> scene \<Rightarrow> scene" where
  "spec_order_tick h g inp delta s =
     key_actions h g inp (in_bounds (director_update h g delta (set_velocity inp s)))"

text \<open>
  The framework's \<^verbatim>\<open>weightedPick\<close>, which returns
  \<^verbatim>\<open>array[~~(Math.pow(this.frac(), 2) * (array.length - c) + 0.5)]\<close>; \<open>f\<close> is the value of
  \<^verbatim>\<open>frac()\<close>, a draw from the interval from 0 (included) to 1 (excluded). The value
  of the constant \<open>c\<close> is 1 or 0.5 according to the release of the framework; it is a
  parameter here, and the property stated of the function below is stated for both
  values. An index outside the array gives \<^verbatim>\<open>undefined\<close>. \<open>frac_host c f\<close> is the
  host whose picks are made by this function on the draw \<open>f\<close>.
\<close>

definition phaser_weightedPick :: "real \<Rightarrow> real \<Rightarrow> string list \<Rightarrow> string" where
  "phaser_weightedPick c f xs =
     (let i = nat \<lfloor>f * f * (real (length xs) - c) + 0.5\<rfloor>
      in if i < length xs then xs ! i else ''undefined'')"

subsection \<open>A host, a configuration and inputs for concrete runs\<close>

text \<open>
  The host's colours and random numbers are all 0, its clock reads 1000, and its
  \<^verbatim>\<open>weightedPick\<close> returns the first entry of the array, the entry the framework's
  function favours.
\<close>

definition host0 :: host where
  "host0 = \<lparr>randomRGB = (\<lambda>k. 0), math_random = (\<lambda>k. 0),
            weightedPick = (\<lambda>k xs. case xs of [] \<Rightarrow> [] | x # _ \<Rightarrow> x),
            date_now = 1000\<rparr>"

definition gfx0 :: gfx where
  "gfx0 = \<lparr>bloom = True, vignette = True, particles = 1, encounterPeriod = Some 15000\<rparr>"

definition no_input :: input where
  "no_input =
     \<lparr>cursor_left = False, cursor_right = False, cursor_up = False, cursor_down = False,
      key_W = False, key_A = False, key_S = False, key_D = False,
      just_SPACE = False, just_E = False, just_SHIFT = False, just_O = False,
      just_ESC = False, gamepad = None\<rparr>"

definition scene0 :: scene where
  "scene0 = create host0 gfx0 800 600"

definition frac_host :: "real \<Rightarrow> real \<Rightarrow> host" where
  "frac_host c f = host0\<lparr>weightedPick := (\<lambda>k. phaser_weightedPick c f)\<rparr>"

text \<open>A scene whose bullet group has a size limit of one and holds one bullet.\<close>

definition full_pool_scene :: scene where
  "full_pool_scene =
     scene0\<lparr>bullets_maxSize := 1,
            bullets := [\<lparr>bid = 0, bx = 400, by' = 100, bvx = 0, bvy = - 300,
                         bactive = True, bvisible = True\<rparr>],
            next_id := 1\<rparr>"

text \<open>
  The scene after \<^verbatim>\<open>create\<close> with the player moved 40 units above the top edge
  (nothing confines the player to the canvas), and the input of a frame in which only
  the space bar has just gone down.
\<close>

definition above_top_scene :: scene where
  "above_top_scene = scene0\<lparr>player_y := - 40\<rparr>"

definition space_input :: input where
  "space_input = no_input\<lparr>just_SPACE := True\<rparr>"

text \<open>
  Two scenes with four discoveries made: one with a projectile and an enemy that has one
  hit point left, one with a planet sprite 20 units from the player.
\<close>

definition kill_scene :: scene where
  "kill_scene =
     scene0\<lparr>p_discoveries := 4,
            bullets := [\<lparr>bid = 9, bx = 400, by' = 100, bvx = 0, bvy = - 300,
                         bactive = True, bvisible = True\<rparr>],
            enemies := [\<lparr>eid = 7, ex = 400, ey = 100, evx = 0, evy = 50,
                         etype = ''scout'', ehp = 1\<rparr>],
            next_id := 10\<rparr>"

definition scan_scene :: scene where
  "scan_scene =
     scene0\<lparr>p_discoveries := 4,
            planet_group := [\<lparr>sx = 400, sy = 400, sscale = 1, stint = 0, salpha = 1,
                              srotation = 0, skey = ''planet''\<rparr>]\<rparr>"

text \<open>
  Frames without input: one long enough for the director to spawn, and one in which
  the player overlaps the enemies listed. In the first session below every frame
  resolves at most one collision; in the second the last frame resolves two.
\<close>

definition spawn_frame :: frame where
  "spawn_frame = \<lparr>f_delta = 15001, f_overlaps = [], f_input = no_input\<rparr>"

definition hit_frame :: "nat list \<Rightarrow> frame" where
  "hit_frame es = \<lparr>f_delta = 16, f_overlaps = map PlayerEnemy es, f_input = no_input\<rparr>"

definition single_hit_frames :: "frame list" where
  "single_hit_frames = [spawn_frame, hit_frame [0], hit_frame [1], hit_frame [2]]"

definition double_hit_frames :: "frame list" where
  "double_hit_frames =
     [spawn_frame, hit_frame [2], spawn_frame, hit_frame [5], spawn_frame, hit_frame [6, 7]]"

section \<open>Properties\<close>

subsection \<open>The scene after \<^verbatim>\<open>create\<close>\<close>

lemma create_fields:
  "bullets (create h g w ht) = []"
  "bullets_maxSize (create h g w ht) = - 1"
  "enemies (create h g w ht) = []"
  "p_hull (create h g w ht) = 3"
  "p_shield (create h g w ht) = False"
  "p_discoveries (create h g w ht) = 0"
  "ops (create h g w ht) = []"
  "delayed (create h g w ht) = []"
  "next_id (create h g w ht) = 0"
  "n_pick (create h g w ht) = 0"
  "timer (create h g w ht) = 0"
  "width (create h g w ht) = w"
  "player_x (create h g w ht) = w / 2"
  "player_y (create h g w ht) = ht * 0.7"
  "seed (create h g w ht) = date_now h AND 0xffff"
  by (simp_all add: create_def loadSector_def Let_def)

subsection \<open>The encounter director\<close>

lemma upt_0_3: "[0..<3] = [0, Suc 0, 2]"
  by (simp add: upt_rec)

lemma enemies_spawn:
  "enemies (spawn h s) =
     enemies s @
     map (\<lambda>i. physics_group_defaults
                (new_enemy s (weightedPick h (n_pick s) [''scout'', ''tank'', ''pulsar'']) i))
       [0..<3]"
  by (simp add: spawn_def addMultiple_def Let_def)

lemma director_update_cases:
  "director_update h g d s =
     (if period g < timer s + d then spawn h (s\<lparr>timer := 0\<rparr>) else s\<lparr>timer := timer s + d\<rparr>)"
  by (simp add: director_update_def Let_def)

text \<open>
  C6 at a threshold crossing. The director creates three sprites at
  \<open>x = width/2 + (i - 1) * 40\<close>, \<open>y = -50\<close>, with 4 hit points for the type \<open>tank\<close> and
  2 otherwise, and gives sprite \<open>i\<close> the downward velocity \<open>40 + 10 * i\<close>. Adding the
  sprites to the scene's enemy collection, a physics group, resets their velocity: the
  three enemies appended to the collection have velocity \<open>(0, 0)\<close>. A tick that does not
  cross the threshold appends nothing.
\<close>

theorem C6_spawn_batch_velocity_reset:
  "enemies (director_update h g d s) =
     enemies s @
     (if period g < timer s + d then
        [\<lparr>eid = next_id s, ex = width s / 2 - 40, ey = - 50, evx = 0, evy = 0,
          etype = weightedPick h (n_pick s) [''scout'', ''tank'', ''pulsar''],
          ehp = (if weightedPick h (n_pick s) [''scout'', ''tank'', ''pulsar''] = ''tank''
                 then 4 else 2)\<rparr>,
         \<lparr>eid = next_id s + 1, ex = width s / 2, ey = - 50, evx = 0, evy = 0,
          etype = weightedPick h (n_pick s) [''scout'', ''tank'', ''pulsar''],
          ehp = (if weightedPick h (n_pick s) [''scout'', ''tank'', ''pulsar''] = ''tank''
                 then 4 else 2)\<rparr>,
         \<lparr>eid = next_id s + 2, ex = width s / 2 + 40, ey = - 50, evx = 0, evy = 0,
          etype = weightedPick h (n_pick s) [''scout'', ''tank'', ''pulsar''],
          ehp = (if weightedPick h (n_pick s) [''scout'', ''tank'', ''pulsar''] = ''tank''
                 then 4 else 2)\<rparr>]
      else [])
   \<and> map (\<lambda>i. evy (new_enemy s t i)) [0, 1, 2] = [40, 50, 60]"
  by (simp add: director_update_cases enemies_spawn upt_0_3 new_enemy_def
        physics_group_defaults_def)

lemma timer_spawn: "timer (spawn h s) = timer s"
  by (simp add: spawn_def Let_def)

lemma n_pick_spawn: "n_pick (spawn h s) = Suc (n_pick s)"
  by (simp add: spawn_def Let_def)

lemma length_enemies_director_update:
  "length (enemies (director_update h g d s)) =
     length (enemies s) + (if period g < timer s + d then 3 else 0)"
  by (simp add: director_update_cases enemies_spawn)

lemma length_enemies_ticks:
  "length (enemies (foldl (\<lambda>s d. director_update h g d s) s ds)) \<le> length (enemies s) + 3 * length ds"
proof (induction ds arbitrary: s)
  case Nil
  show ?case by simp
next
  case (Cons d ds)
  have "length (enemies (foldl (\<lambda>s d. director_update h g d s) (director_update h g d s) ds))
          \<le> length (enemies (director_update h g d s)) + 3 * length ds"
    by (rule Cons.IH)
  also have "\<dots> \<le> (length (enemies s) + 3) + 3 * length ds"
    by (simp add: length_enemies_director_update)
  finally show ?case by simp
qed

text \<open>
  C7. One call of the director's \<^verbatim>\<open>update\<close> adds the delta to the accumulator; when
  the sum exceeds the period, the accumulator becomes 0 (the period is not subtracted)
  and exactly one spawn fires: one type is picked and three enemies are appended. Otherwise
  no spawn fires. This holds for every delta, so no tick makes a catch-up spawn, and
  over any sequence of deltas at most one batch of three is spawned per tick. The
  period is 15000 when the configuration gives none.
\<close>

theorem C7_one_spawn_per_tick:
  "timer (director_update h g d s) = (if period g < timer s + d then 0 else timer s + d)
   \<and> n_pick (director_update h g d s) = n_pick s + (if period g < timer s + d then 1 else 0)
   \<and> length (enemies (director_update h g d s)) =
       length (enemies s) + (if period g < timer s + d then 3 else 0)
   \<and> length (enemies (foldl (\<lambda>s d. director_update h g d s) s ds))
       \<le> length (enemies s) + 3 * length ds
   \<and> period (g\<lparr>encounterPeriod := None\<rparr>) = 15000"
proof -
  have "timer (director_update h g d s) = (if period g < timer s + d then 0 else timer s + d)"
    by (simp add: director_update_cases timer_spawn)
  moreover have "n_pick (director_update h g d s) =
      n_pick s + (if period g < timer s + d then 1 else 0)"
    by (simp add: director_update_cases n_pick_spawn)
  moreover have "period (g\<lparr>encounterPeriod := None\<rparr>) = 15000"
    by (simp add: period_def)
  ultimately show ?thesis
    using length_enemies_director_update [of h g d s] length_enemies_ticks [of h g s ds]
    by blast
qed

subsection \<open>Sector jumps\<close>

lemma loadSector_frame:
  "loadSector h g sd s =
     s\<lparr>the_sector := SectorFactory sd (\<lambda>k. randomRGB h (n_rgb s + k)),
       starGroup := starGroup (loadSector h g sd s),
       planet_group := planet_group (loadSector h g sd s),
       nebula_group := nebula_group (loadSector h g sd s),
       n_rgb := n_rgb (loadSector h g sd s),
       n_random := n_random (loadSector h g sd s)\<rparr>"
  by (simp add: loadSector_def Let_def)

lemma jumpSector_frame:
  "jumpSector h g s =
     s\<lparr>seed := js_rem (seed s * 16807) 2147483647,
       the_sector := SectorFactory (js_rem (seed s * 16807) 2147483647)
                       (\<lambda>k. randomRGB h (n_rgb s + k)),
       starGroup := starGroup (jumpSector h g s),
       planet_group := planet_group (jumpSector h g s),
       nebula_group := nebula_group (jumpSector h g s),
       n_rgb := n_rgb (jumpSector h g s),
       n_random := n_random (jumpSector h g s),
       events := events s @
         [UpdateHud None None
            (Some (''Sector '' @ string_of_int (js_rem (seed s * 16807) 2147483647)))]\<rparr>"
  by (simp add: jumpSector_def loadSector_def Let_def SectorFactory_def split_def)

text \<open>
  C10. A sector jump replaces the seed by the derived seed and the sector, with the
  star emitters, the planet group and the nebula group built from it (whose name it
  announces in one event); the player's hull, shield flag and discoveries and the live
  enemy and projectile collections are the same after the jump as before, so enemies of
  the previous sector persist. Putting the replaced fields back gives the scene before
  the jump: nothing else has changed.
\<close>

theorem C10_jump_frame:
  "p_hull (jumpSector h g s) = p_hull s
   \<and> p_shield (jumpSector h g s) = p_shield s
   \<and> p_discoveries (jumpSector h g s) = p_discoveries s
   \<and> enemies (jumpSector h g s) = enemies s
   \<and> bullets (jumpSector h g s) = bullets s
   \<and> seed (jumpSector h g s) = js_rem (seed s * 16807) 2147483647
   \<and> the_sector (jumpSector h g s) =
       SectorFactory (js_rem (seed s * 16807) 2147483647) (\<lambda>k. randomRGB h (n_rgb s + k))
   \<and> (jumpSector h g s)\<lparr>seed := seed s, the_sector := the_sector s,
         starGroup := starGroup s, planet_group := planet_group s,
         nebula_group := nebula_group s, n_rgb := n_rgb s, n_random := n_random s,
         events := events s\<rparr> = s"
proof -
  let ?j = "jumpSector h g s"
  note f = jumpSector_frame [of h g s]
  have "p_hull ?j = p_hull s" by (subst f) simp
  moreover have "p_shield ?j = p_shield s" by (subst f) simp
  moreover have "p_discoveries ?j = p_discoveries s" by (subst f) simp
  moreover have "enemies ?j = enemies s" by (subst f) simp
  moreover have "bullets ?j = bullets s" by (subst f) simp
  moreover have "seed ?j = js_rem (seed s * 16807) 2147483647" by (subst f) simp
  moreover have "the_sector ?j =
      SectorFactory (js_rem (seed s * 16807) 2147483647) (\<lambda>k. randomRGB h (n_rgb s + k))"
    by (subst f) simp
  moreover have "?j\<lparr>seed := seed s, the_sector := the_sector s,
         starGroup := starGroup s, planet_group := planet_group s,
         nebula_group := nebula_group s, n_rgb := n_rgb s, n_random := n_random s,
         events := events s\<rparr> = s"
    by (subst f) simp
  ultimately show ?thesis by blast
qed

subsection \<open>Choice of the enemy type\<close>

lemma spawn_types_frac:
  "map etype (enemies (spawn (frac_host c f) scene0)) =
     replicate 3 (phaser_weightedPick c f [''scout'', ''tank'', ''pulsar''])"
  by (simp add: enemies_spawn upt_0_3 new_enemy_def physics_group_defaults_def scene0_def
        create_fields frac_host_def numeral_3_eq_3)

lemma square_less_quarter:
  fixes f :: real
  assumes "0 \<le> f"
  shows "(f * f < 1 / 4) = (f < 1 / 2)"
proof
  assume a: "f * f < 1 / 4"
  show "f < 1 / 2"
  proof (rule ccontr)
    assume "\<not> f < 1 / 2"
    then have "1 / 2 \<le> f" by simp
    then have "(1 / 2) * (1 / 2) \<le> f * f" by (intro mult_mono) simp_all
    with a show False by simp
  qed
next
  assume a: "f < 1 / 2"
  have "f * f \<le> f * (1 / 2)" using a assms by (intro mult_left_mono) simp_all
  also have "\<dots> < 1 / 4" using a by simp
  finally show "f * f < 1 / 4" .
qed

lemma square_less_one:
  fixes f :: real
  assumes "0 \<le> f" "f < 1"
  shows "f * f < 1"
proof -
  have "f * f \<le> f * 1" using assms by (intro mult_left_mono) simp_all
  then show ?thesis using assms by simp
qed

lemma pick_scout:
  fixes f c :: real
  assumes "0 \<le> f" "f < 1" "1 / 2 \<le> c" "c \<le> 1"
  shows "(phaser_weightedPick c f [''scout'', ''tank'', ''pulsar''] = ''scout'') =
           (f * f * (3 - c) + 1 / 2 < 1)"
proof -
  let ?x = "f * f * (3 - c) + 1 / 2"
  have ff: "0 \<le> f * f" "f * f < 1"
    using assms square_less_one by simp_all
  define y where "y = f * f * (3 - c)"
  have "f * f * (3 - c) < 1 * (3 - c)"
    using ff assms by (intro mult_strict_right_mono) simp_all
  then have "y < 3 - c" by (simp add: y_def)
  moreover have "0 \<le> y"
    using ff assms by (simp add: y_def)
  ultimately have "0 \<le> y + 1 / 2" "y + 1 / 2 < 3" using assms by simp_all
  then have x: "0 \<le> ?x" "?x < 3" by (simp_all add: y_def)
  have i: "nat \<lfloor>?x\<rfloor> < 3" using x by (simp add: floor_less_iff nat_less_iff)
  have z: "(nat \<lfloor>?x\<rfloor> = 0) = (?x < 1)"
    using x(1) by (simp add: floor_less_iff) 
  have "(phaser_weightedPick c f [''scout'', ''tank'', ''pulsar''] = ''scout'') = (nat \<lfloor>?x\<rfloor> = 0)"
    using i by (cases "nat \<lfloor>?x\<rfloor>") (auto simp add: phaser_weightedPick_def Let_def nth_Cons')
  then show ?thesis using z by simp
qed

text \<open>
  C3, as stated, fails. The scene after \<^verbatim>\<open>create\<close> has a sector whose
  \<^verbatim>\<open>encounterWeights\<close> are the table 0.7/0.2/0.1. With the framework's
  \<^verbatim>\<open>weightedPick\<close> making the choice, the draws of \<^verbatim>\<open>frac()\<close> for which a spawn in
  that scene creates scouts are exactly the draws below 1/2 when the framework's constant
  is 1, and lie below 1/2 when it is 0.5: the type \<open>scout\<close> is chosen for at most half of
  the uniform draws, not for 0.7 of them.
\<close>

theorem C3_scout_share_not_seven_tenths:
  "{f. 0 \<le> f \<and> f < 1 \<and>
       map etype (enemies (spawn (frac_host 1 f) scene0)) = [''scout'', ''scout'', ''scout'']}
     = {f. 0 \<le> f \<and> f < 1 / 2}
   \<and> {f. 0 \<le> f \<and> f < 1 \<and>
       map etype (enemies (spawn (frac_host (1 / 2) f) scene0)) = [''scout'', ''scout'', ''scout'']}
     \<subseteq> {f. 0 \<le> f \<and> f < 1 / 2}
   \<and> encounterWeights (the_sector scene0) = \<lparr>w_scout = 0.7, w_tank = 0.2, w_pulsar = 0.1\<rparr>"
proof -
  have a: "(map etype (enemies (spawn (frac_host 1 f) scene0)) = [''scout'', ''scout'', ''scout''])
         = (f < 1 / 2)" if "0 \<le> f" "f < 1" for f
  proof -
    have "(f * f * (3 - 1) + 1 / 2 < 1) = (f * f < 1 / 4)" by auto
    then show ?thesis
      using that pick_scout [of f 1] square_less_quarter [of f]
      by (simp only: spawn_types_frac numeral_3_eq_3 replicate.simps list.inject) simp
  qed
  have b: "f < 1 / 2" if "0 \<le> f" "f < 1"
      "map etype (enemies (spawn (frac_host (1 / 2) f) scene0)) = [''scout'', ''scout'', ''scout'']" for f
  proof -
    have "phaser_weightedPick (1 / 2) f [''scout'', ''tank'', ''pulsar''] = ''scout''"
      using that(3) by (simp add: spawn_types_frac numeral_3_eq_3)
    then have "f * f * (3 - 1 / 2) + 1 / 2 < 1"
      using that pick_scout [of f "1 / 2"] by simp
    then have "f * f < 1 / 4" by simp
    then show ?thesis using that(1) square_less_quarter by simp
  qed
  have w: "encounterWeights (the_sector scene0) = \<lparr>w_scout = 0.7, w_tank = 0.2, w_pulsar = 0.1\<rparr>"
    by (simp add: scene0_def create_def loadSector_def Let_def SectorFactory_def split_def
          default_weights_def)
  have "{f. 0 \<le> f \<and> f < 1 \<and>
       map etype (enemies (spawn (frac_host 1 f) scene0)) = [''scout'', ''scout'', ''scout'']}
     = {f. 0 \<le> f \<and> f < 1 / 2}"
  proof (rule Collect_cong, rule iffI)
    fix f :: real
    assume h: "0 \<le> f \<and> f < 1 \<and>
        map etype (enemies (spawn (frac_host 1 f) scene0)) = [''scout'', ''scout'', ''scout'']"
    then have "f < 1 / 2" using a [of f] by (elim conjE) (rule iffD1)
    with h show "0 \<le> f \<and> f < 1 / 2" by (elim conjE) (rule conjI)
  next
    fix f :: real
    assume h: "0 \<le> f \<and> f < 1 / 2"
    then have l: "0 \<le> f" "f < 1" "f < 1 / 2" by simp_all
    have "map etype (enemies (spawn (frac_host 1 f) scene0)) = [''scout'', ''scout'', ''scout'']"
      using a [OF l(1,2)] l(3) by (rule iffD2)
    with l show "0 \<le> f \<and> f < 1 \<and>
        map etype (enemies (spawn (frac_host 1 f) scene0)) = [''scout'', ''scout'', ''scout'']"
      by (intro conjI)
  qed
  moreover have "{f. 0 \<le> f \<and> f < 1 \<and>
       map etype (enemies (spawn (frac_host (1 / 2) f) scene0)) = [''scout'', ''scout'', ''scout'']}
     \<subseteq> {f. 0 \<le> f \<and> f < 1 / 2}"
  proof (rule Collect_mono, rule impI)
    fix f :: real
    assume h: "0 \<le> f \<and> f < 1 \<and>
       map etype (enemies (spawn (frac_host (1 / 2) f) scene0)) = [''scout'', ''scout'', ''scout'']"
    then have "f < 1 / 2" by (elim conjE) (rule b)
    with h show "0 \<le> f \<and> f < 1 / 2" by (elim conjE) (rule conjI)
  qed
  ultimately show ?thesis using w by blast
qed

text \<open>
  C3, as the code has it. Every spawn selects the single enemy type of its batch by one
  call of the framework's \<^verbatim>\<open>weightedPick\<close> on the array \<open>[scout, tank, pulsar]\<close>, the
  call's only argument: all three enemies of the batch carry that type, and the choice
  is the same whatever sector is active, so neither the table 0.7/0.2/0.1 nor the
  sector's \<^verbatim>\<open>encounterWeights\<close> enters it.
\<close>

theorem C3_type_from_array_only:
  "map etype (drop (length (enemies s)) (enemies (spawn h s))) =
     replicate 3 (weightedPick h (n_pick s) [''scout'', ''tank'', ''pulsar''])
   \<and> enemies (spawn h (s\<lparr>the_sector := sec\<rparr>)) = enemies (spawn h s)"
  by (simp add: enemies_spawn upt_0_3 new_enemy_def physics_group_defaults_def numeral_3_eq_3)

subsection \<open>Firing\<close>

lemma find_active_None:
  "list_all (\<lambda>b. bactive b \<and> bid b < n) bs \<Longrightarrow> find (\<lambda>b. \<not> bactive b) bs = None"
  by (induction bs) auto

lemma map_fresh_id:
  "list_all (\<lambda>b. bactive b \<and> bid b < n) bs \<Longrightarrow>
   map (\<lambda>b. if bid b = n then f b else b) bs = bs"
  by (induction bs) auto

lemma list_all_mono_id:
  "list_all (\<lambda>b. bactive b \<and> bid b < n) bs \<Longrightarrow>
   list_all (\<lambda>b. bactive b \<and> bid b < Suc n) bs"
  by (induction bs) auto

lemma fire_pool:
  assumes "pool_inv s"
  shows "fire s =
     s\<lparr>bullets := bullets s @
          [\<lparr>bid = next_id s, bx = player_x s, by' = player_y s - 20, bvx = 0, bvy = - 300,
            bactive = True, bvisible = True\<rparr>],
       next_id := Suc (next_id s)\<rparr>"
proof -
  have a: "list_all (\<lambda>b. bactive b \<and> bid b < next_id s) (bullets s)"
    and m: "bullets_maxSize s = - 1"
    using assms by (simp_all add: pool_inv_def)
  show ?thesis
    by (simp add: fire_def group_get_def find_active_None [OF a] map_fresh_id [OF a] m)
qed

lemma pool_inv_fire: "pool_inv s \<Longrightarrow> pool_inv (fire s)"
  by (simp add: fire_pool pool_inv_def list_all_mono_id)

lemma pool_inv_create: "pool_inv (create h g w ht)"
  by (simp add: pool_inv_def create_fields)

lemma fire_pow:
  "pool_inv s \<Longrightarrow>
   pool_inv ((fire ^^ n) s) \<and> length (bullets ((fire ^^ n) s)) = length (bullets s) + n"
proof (induction n)
  case 0
  then show ?case by simp
next
  case (Suc n)
  then have i: "pool_inv ((fire ^^ n) s)"
    and l: "length (bullets ((fire ^^ n) s)) = length (bullets s) + n"
    by simp_all
  have "length (bullets (fire ((fire ^^ n) s))) = Suc (length (bullets ((fire ^^ n) s)))"
    by (subst fire_pool [OF i]) simp
  then show ?case using pool_inv_fire [OF i] l by simp
qed


subsection \<open>The shield\<close>

lemma clock_idle: "delayed s = [] \<Longrightarrow> clock_update d s = s"
  by (simp add: clock_update_def Let_def)

lemma clock_idle_run: "delayed s = [] \<Longrightarrow> foldl (\<lambda>s d. clock_update d s) s ds = s"
  by (induction ds) (simp_all add: clock_idle)

lemma clock_pending:
  assumes "delayed s = [\<lparr>dc_delay = 300, dc_elapsed = e\<rparr>]"
  shows "clock_update d s =
     (if 300 \<le> e + d then s\<lparr>delayed := [], p_shield := False\<rparr>
      else s\<lparr>delayed := [\<lparr>dc_delay = 300, dc_elapsed = e + d\<rparr>]\<rparr>)"
  using assms by (simp add: clock_update_def Let_def)

lemma sum_list_nonneg: "list_all (\<lambda>d. 0 \<le> d) ds \<Longrightarrow> (0::real) \<le> sum_list ds"
  by (induction ds) auto

lemma shield_window_run:
  "p_shield s \<Longrightarrow> delayed s = [\<lparr>dc_delay = 300, dc_elapsed = e\<rparr>] \<Longrightarrow> e < 300 \<Longrightarrow>
   list_all (\<lambda>d. 0 \<le> d) ds \<Longrightarrow>
   p_shield (foldl (\<lambda>s d. clock_update d s) s ds) = (e + sum_list ds < 300)"
proof (induction ds arbitrary: s e)
  case Nil
  then show ?case by simp
next
  case (Cons d ds)
  show ?case
  proof (cases "300 \<le> e + d")
    case True
    have c: "clock_update d s = s\<lparr>delayed := [], p_shield := False\<rparr>"
      using Cons.prems(2) True by (simp add: clock_pending)
    have "0 \<le> sum_list ds"
      using Cons.prems(4) by (simp add: sum_list_nonneg)
    then show ?thesis using True by (simp add: c clock_idle_run)
  next
    case False
    have c: "clock_update d s = s\<lparr>delayed := [\<lparr>dc_delay = 300, dc_elapsed = e + d\<rparr>]\<rparr>"
      using Cons.prems(2) False by (simp add: clock_pending)
    have "p_shield (foldl (\<lambda>s d. clock_update d s) (clock_update d s) ds) =
            (e + d + sum_list ds < 300)"
      using Cons.prems False by (intro Cons.IH) (simp_all add: c)
    then show ?thesis by (simp add: add.assoc)
  qed
qed

lemma shield_window:
  assumes "\<not> p_shield t" "delayed t = []" "list_all (\<lambda>d. 0 \<le> d) ds"
  shows "p_shield (foldl (\<lambda>s d. clock_update d s) (shield t) ds) = (sum_list ds < 300)"
  using shield_window_run [of "shield t" 0 ds] assms by (simp add: shield_def)

text \<open>
  C9. While the shield flag is set, a player-enemy collision destroys the enemy and
  changes nothing else, the hull included, and a further shield trigger leaves the
  whole scene unchanged, the flag and the pending expiry with it, so the window is not
  extended. Without the flag a collision costs one hull point. The flag set by a
  trigger on an unshielded scene stays set through the clock updates whose deltas sum
  to less than 300 ms and is cleared by the update at which the sum reaches 300 ms.
\<close>

theorem C9_shield:
  "(p_shield s \<longrightarrow>
      shield s = s \<and> playerHit e s = s\<lparr>enemies := filter (\<lambda>x. eid x \<noteq> e) (enemies s)\<rparr>)
   \<and> (\<not> p_shield t \<longrightarrow> p_hull (playerHit e t) = p_hull t - 1)
   \<and> (\<not> p_shield t \<and> delayed t = [] \<and> list_all (\<lambda>d. 0 \<le> d) ds \<longrightarrow>
        p_shield (shield t)
        \<and> p_shield (foldl (\<lambda>s d. clock_update d s) (shield t) ds) = (sum_list ds < 300))"
proof -
  have "p_shield s \<longrightarrow>
      shield s = s \<and> playerHit e s = s\<lparr>enemies := filter (\<lambda>x. eid x \<noteq> e) (enemies s)\<rparr>"
    by (simp add: shield_def playerHit_def Let_def)
  moreover have "\<not> p_shield t \<longrightarrow> p_hull (playerHit e t) = p_hull t - 1"
    by (simp add: playerHit_def Let_def gameOver_def)
  moreover have "\<not> p_shield t \<longrightarrow> p_shield (shield t)"
    by (simp add: shield_def)
  ultimately show ?thesis
    using shield_window [of t ds] by blast
qed

theorem C9_shield_witness:
  "p_shield (shield scene0)
   \<and> shield (shield scene0) = shield scene0
   \<and> p_hull (playerHit 0 (shield scene0)) = 3
   \<and> \<not> p_shield scene0 \<and> delayed scene0 = []
   \<and> p_hull (playerHit 0 scene0) = 2
   \<and> p_shield (foldl (\<lambda>s d. clock_update d s) (shield scene0) [100, 150])
   \<and> \<not> p_shield (foldl (\<lambda>s d. clock_update d s) (shield scene0) [100, 150, 50])"
proof -
  have u: "\<not> p_shield scene0" and d: "delayed scene0 = []" and h: "p_hull scene0 = 3"
    by (simp_all add: scene0_def create_fields)
  have a: "p_shield (shield scene0)" and h': "p_hull (shield scene0) = 3"
    using u h by (simp_all add: shield_def)
  have "shield (shield scene0) = shield scene0"
    using C9_shield [of "shield scene0" 0 scene0 "[]"] a by blast
  moreover have "p_hull (playerHit 0 (shield scene0)) = 3"
  proof -
    have "playerHit 0 (shield scene0) =
        (shield scene0)\<lparr>enemies := filter (\<lambda>x. eid x \<noteq> 0) (enemies (shield scene0))\<rparr>"
      using C9_shield [of "shield scene0" 0 scene0 "[]"] a by blast
    then show ?thesis using h' by simp
  qed
  moreover have "p_hull (playerHit 0 scene0) = 2"
    using C9_shield [of "shield scene0" 0 scene0 "[]"] u h by simp
  moreover have "p_shield (foldl (\<lambda>s d. clock_update d s) (shield scene0) [100, 150])"
    using C9_shield [of "shield scene0" 0 scene0 "[100, 150]"] u d by simp
  moreover have "\<not> p_shield (foldl (\<lambda>s d. clock_update d s) (shield scene0) [100, 150, 50])"
    using C9_shield [of "shield scene0" 0 scene0 "[100, 150, 50]"] u d by simp
  ultimately show ?thesis using a u d by blast
qed

subsection \<open>The order of a tick\<close>

lemma update_phases:
  "update h g inp d s =
     (case gamepad inp of
        Some p \<Rightarrow> TypeError (if button0 p then fire s else s)
      | None \<Rightarrow>
          (case cleanup (key_actions h g inp (set_velocity inp s)) of
             TypeError t \<Rightarrow> TypeError t
           | Completed t \<Rightarrow> Completed (director_update h g d t)))"
proof (cases "gamepad inp")
  case None
  show ?thesis
    by (simp only: update_def key_actions_def set_velocity_def move_velocity_def
        Let_def None option.case prod.case fst_conv snd_conv)
next
  case (Some p)
  show ?thesis
    by (simp only: update_def Let_def Some option.case)
qed

lemma cleanup_loop_short:
  "0 < n \<Longrightarrow> length bs < i + n \<Longrightarrow> \<exists>r. cleanup_loop n i bs = TypeError r"
proof (induction n arbitrary: i bs)
  case 0
  then show ?case by simp
next
  case (Suc n)
  show ?case
  proof (cases "length bs \<le> i")
    case True
    then show ?thesis by simp
  next
    case False
    then have n: "0 < n" using Suc.prems by simp
    have a: "\<exists>r. cleanup_loop n (Suc i) bs = TypeError r"
      using Suc.IH [OF n, of bs "Suc i"] Suc.prems by simp
    have b: "\<exists>r. cleanup_loop n (Suc i) (take i bs @ drop (Suc i) bs) = TypeError r"
      using Suc.IH [OF n, of "take i bs @ drop (Suc i) bs" "Suc i"] Suc.prems False by simp
    show ?thesis using False a b by simp
  qed
qed

lemma cleanup_loop_Completed:
  "length bs = i + n \<Longrightarrow> cleanup_loop n i bs = Completed r \<Longrightarrow>
   r = take i bs @ filter (\<lambda>b. \<not> by' b < - 50) (drop i bs)"
proof (induction n arbitrary: i bs)
  case 0
  then show ?case by simp
next
  case (Suc n)
  have i: "i < length bs" using Suc.prems(1) by simp
  have d: "drop i bs = bs ! i # drop (Suc i) bs"
    using i by (simp add: Cons_nth_drop_Suc)
  show ?case
  proof (cases "by' (bs ! i) < - 50")
    case True
    have c: "cleanup_loop n (Suc i) (take i bs @ drop (Suc i) bs) = Completed r"
      using Suc.prems(2) i True by simp
    have "n = 0"
    proof (rule ccontr)
      assume "n \<noteq> 0"
      then have "\<exists>r'. cleanup_loop n (Suc i) (take i bs @ drop (Suc i) bs) = TypeError r'"
        using Suc.prems(1) i by (intro cleanup_loop_short) simp_all
      with c show False by simp
    qed
    then show ?thesis using c Suc.prems(1) True d by simp
  next
    case False
    have c: "cleanup_loop n (Suc i) bs = Completed r"
      using Suc.prems(2) i False by simp
    have "r = take (Suc i) bs @ filter (\<lambda>b. \<not> by' b < - 50) (drop (Suc i) bs)"
      using Suc.IH [of bs "Suc i"] c Suc.prems(1) by simp
    then show ?thesis using False d i by (simp add: take_Suc_conv_app_nth)
  qed
qed

lemma cleanup_Completed: "cleanup s = Completed t \<Longrightarrow> t = in_bounds s"
  using cleanup_loop_Completed [of "bullets s" 0 "length (bullets s)"]
  by (auto simp add: cleanup_def in_bounds_def split: outcome.splits)

lemma update_Completed:
  assumes "update h g inp d s = Completed s'"
  shows "gamepad inp = None"
    and "cleanup (key_actions h g inp (set_velocity inp s)) = Completed (in_bounds (key_actions h g inp (set_velocity inp s)))"
    and "s' = director_update h g d (in_bounds (key_actions h g inp (set_velocity inp s)))"
  using assms cleanup_Completed [of "key_actions h g inp (set_velocity inp s)"]
  by (auto simp add: update_phases split: option.splits outcome.splits)

text \<open>
  The two ways in which a tick stops early: with a pad connected, after the pad's fire;
  and in the cleanup, when a projectile it destroys is not the last of the group (below
  the first of three: the second is never visited, and the pass at the third index finds
  nothing there).
\<close>

lemma update_with_pad:
  "gamepad inp = Some p \<Longrightarrow>
   update h g inp d s = TypeError (if button0 p then fire s else s)"
  by (simp add: update_phases)

lemma cleanup_loop_not_last:
  "by' a < - 50 \<Longrightarrow> \<not> by' c < - 50 \<Longrightarrow>
   cleanup_loop (length [a, b, c]) 0 [a, b, c] = TypeError [b, c]"
  by (simp add: numeral_3_eq_3)

lemma bullets_spawn: "bullets (spawn h s) = bullets s"
  by (simp add: spawn_def Let_def)

lemma bullets_director_update: "bullets (director_update h g d s) = bullets s"
  by (simp add: director_update_cases bullets_spawn)

text \<open>
  C5, as the code has it. Every tick of \<^verbatim>\<open>update\<close> that runs to completion has
  executed, in this order: the input resolution, which sets the player's velocity; the
  keyboard-triggered action effects (fire, scan, shield, togglePhoto, pause); the
  projectile cleanup, which has destroyed the projectiles with \<open>y < -50\<close>; and last the
  encounter director's tick. So the action effects precede the cleanup and the cleanup
  precedes the encounter tick, and no projectile beyond the bound survives the tick in
  which it was fired.
\<close>

theorem C5_update_order:
  "update h g inp d s = Completed s' \<Longrightarrow>
   s' = director_update h g d (in_bounds (key_actions h g inp (set_velocity inp s)))
   \<and> list_all (\<lambda>b. - 50 \<le> by' b) (bullets s')"
  using update_Completed(3) [of h g inp d s s']
  by (simp add: bullets_director_update in_bounds_def list_all_iff not_less)

lemma key_actions_space: "key_actions h g space_input s = fire s"
  by (simp add: key_actions_def space_input_def no_input_def Let_def)

lemma set_velocity_space: "set_velocity space_input s = s\<lparr>player_vx := 0, player_vy := 0\<rparr>"
  by (simp add: set_velocity_def move_velocity_def space_input_def no_input_def)

lemma above_top_fields:
  "bullets above_top_scene = []" "bullets_maxSize above_top_scene = - 1"
  "next_id above_top_scene = 0" "player_x above_top_scene = 400"
  "player_y above_top_scene = - 40" "timer above_top_scene = 0"
  by (simp_all add: above_top_scene_def scene0_def create_fields)

lemma period_gfx0: "period gfx0 = 15000"
  by (simp add: period_def gfx0_def)

lemma fire_above_top:
  "fire (above_top_scene\<lparr>player_vx := 0, player_vy := 0\<rparr>) =
     above_top_scene\<lparr>player_vx := 0, player_vy := 0,
       bullets := [\<lparr>bid = 0, bx = 400, by' = - 60, bvx = 0, bvy = - 300, bactive = True,
             bvisible = True\<rparr>], next_id := Suc 0\<rparr>"
  by (subst fire_pool) (simp_all add: pool_inv_def above_top_fields)

lemma update_above_top:
  "update host0 gfx0 space_input 16 above_top_scene =
     Completed (above_top_scene\<lparr>player_vx := 0, player_vy := 0, bullets := [],
        next_id := Suc 0, timer := 16\<rparr>)"
proof -
  have g: "gamepad space_input = None"
    by (simp add: space_input_def no_input_def)
  show ?thesis
    by (simp add: update_phases g key_actions_space set_velocity_space fire_above_top
          cleanup_def director_update_cases period_gfx0 above_top_fields)
qed

text \<open>
  C5, as stated, fails. With the player 40 units above the top edge and the space bar
  just pressed, \<^verbatim>\<open>update\<close> fires a projectile at \<open>y = -60\<close> and its cleanup, which
  comes after the actions, destroys it in the same tick: the tick runs to completion
  and no projectile is left. In the order the specification gives, cleanup runs before
  the fire action and the projectile is still there at the end of the tick.
\<close>

theorem C5_order_differs:
  "bullets (state_of (update host0 gfx0 space_input 16 above_top_scene)) = []
   \<and> bullets (spec_order_tick host0 gfx0 space_input 16 above_top_scene) =
       [\<lparr>bid = 0, bx = 400, by' = - 60, bvx = 0, bvy = - 300, bactive = True, bvisible = True\<rparr>]"
proof -
  let ?v = "above_top_scene\<lparr>player_vx := 0, player_vy := 0\<rparr>"
  have d: "in_bounds (director_update host0 gfx0 16 ?v) = ?v\<lparr>timer := 16\<rparr>"
    by (simp add: director_update_cases period_gfx0 above_top_fields in_bounds_def)
  have "bullets (spec_order_tick host0 gfx0 space_input 16 above_top_scene) =
       [\<lparr>bid = 0, bx = 400, by' = - 60, bvx = 0, bvy = - 300, bactive = True, bvisible = True\<rparr>]"
    unfolding spec_order_tick_def key_actions_space set_velocity_space d
    by (subst fire_pool) (simp_all add: pool_inv_def above_top_fields)
  then show ?thesis by (simp add: update_above_top)
qed

theorem C5_update_order_witness:
  "update host0 gfx0 space_input 16 above_top_scene =
     Completed (above_top_scene\<lparr>player_vx := 0, player_vy := 0, bullets := [],
        next_id := Suc 0, timer := 16\<rparr>)
   \<and> above_top_scene\<lparr>player_vx := 0, player_vy := 0, bullets := [], next_id := Suc 0, timer := 16\<rparr> =
       director_update host0 gfx0 16 (in_bounds (key_actions host0 gfx0 space_input (set_velocity space_input above_top_scene)))
   \<and> list_all (\<lambda>b. - 50 \<le> by' b)
        (bullets (above_top_scene\<lparr>player_vx := 0, player_vy := 0, bullets := [],
            next_id := Suc 0, timer := 16\<rparr>))"
  using update_above_top C5_update_order [OF update_above_top] by blast

subsection \<open>Discoveries and jumps\<close>

lemma hitEnemy_never_jumps:
  "seed (hitEnemy b e s) = seed s \<and> the_sector (hitEnemy b e s) = the_sector s
   \<and> planet_group (hitEnemy b e s) = planet_group s"
  by (simp add: hitEnemy_def Let_def)

lemma list_ex_decrement:
  "list_ex (\<lambda>x. eid x = e \<and> ehp x \<le> 0) (map (\<lambda>x. if eid x = e then x\<lparr>ehp := ehp x - 1\<rparr> else x) es)
     = list_ex (\<lambda>x. eid x = e \<and> ehp x \<le> 1) es"
  by (induction es) auto

lemma hitEnemy_kill:
  "p_discoveries (hitEnemy b e s) = p_discoveries s + (if list_ex (\<lambda>x. eid x = e \<and> ehp x \<le> 1) (enemies s) then 1 else 0)"
  by (simp add: hitEnemy_def Let_def list_ex_decrement)

lemma found_iff:
  "foldl (\<lambda>found p. if P p then True else found) a ps = (a \<or> list_ex P ps)"
  by (induction ps arbitrary: a) auto

lemma dist_lt_150:
  "(Distance_Between x1 y1 x2 y2 < 150) = ((x1 - x2) * (x1 - x2) + (y1 - y2) * (y1 - y2) < 22500)"
proof -
  have "sqrt ((x1 - x2) * (x1 - x2) + (y1 - y2) * (y1 - y2)) < sqrt 22500
        \<longleftrightarrow> (x1 - x2) * (x1 - x2) + (y1 - y2) * (y1 - y2) < 22500"
    by (rule real_sqrt_less_iff)
  moreover have "sqrt 22500 = 150"
    by (rule real_sqrt_unique) simp_all
  ultimately show ?thesis by (simp add: Distance_Between_def)
qed

lemma scan_cases:
  "scan h g s =
     (let s1 = s\<lparr>scanRing := \<lparr>ring_visible = True, ring_x = player_x s, ring_y = player_y s, ring_radius = 10\<rparr>\<rparr>
      in if list_ex (\<lambda>p. Distance_Between (player_x s) (player_y s) (sx p) (sy p) < 150) (planet_group s)
         then (let s3 = s1\<lparr>p_discoveries := p_discoveries s + 1,
                          events := events s @ [UpdateHud (Some (p_discoveries s + 1)) None None]\<rparr>
               in if (p_discoveries s + 1) mod 5 = 0 then jumpSector h g s3 else s3)
         else s1)"
  by (simp add: scan_def Let_def found_iff)


lemma jumpSector_fields:
  "p_discoveries (jumpSector h g s) = p_discoveries s"
  "seed (jumpSector h g s) = js_rem (seed s * 16807) 2147483647"
  by (subst jumpSector_frame, simp)+

lemma scan_scene_fields:
  "p_discoveries scan_scene = 4" "seed scan_scene = 1000"
  "player_x scan_scene = 400" "player_y scan_scene = 420"
  "planet_group scan_scene = [\<lparr>sx = 400, sy = 400, sscale = 1, stint = 0, salpha = 1,
                              srotation = 0, skey = ''planet''\<rparr>]"
  by (simp_all add: scan_scene_def scene0_def create_fields host0_def)

lemma kill_scene_fields:
  "p_discoveries kill_scene = 4" "seed kill_scene = 1000"
  "enemies kill_scene = [\<lparr>eid = 7, ex = 400, ey = 100, evx = 0, evy = 50,
                         etype = ''scout'', ehp = 1\<rparr>]"
  by (simp_all add: kill_scene_def scene0_def create_fields host0_def)

text \<open>
  C1 at a kill that brings the counter to a multiple of 5. With four discoveries made,
  a projectile hit that takes an enemy's last hit point raises the counter to 5, destroys
  the enemy and announces the counter, but the seed and the sector stay as they were: no
  jump. A scan near a planet from the same count raises the counter to 5 and does jump,
  from seed 1000 to seed 16807000.
\<close>

theorem C1_kill_to_five_no_jump:
  "p_discoveries kill_scene = 4
   \<and> p_discoveries (hitEnemy 9 7 kill_scene) = 5
   \<and> enemies (hitEnemy 9 7 kill_scene) = []
   \<and> seed (hitEnemy 9 7 kill_scene) = seed kill_scene
   \<and> the_sector (hitEnemy 9 7 kill_scene) = the_sector kill_scene
   \<and> events (hitEnemy 9 7 kill_scene) = events kill_scene @ [UpdateHud (Some 5) None None]
   \<and> p_discoveries scan_scene = 4
   \<and> p_discoveries (scan host0 gfx0 scan_scene) = 5
   \<and> seed scan_scene = 1000
   \<and> seed (scan host0 gfx0 scan_scene) = 16807000"
proof -
  have "list_ex (\<lambda>p. Distance_Between (player_x scan_scene) (player_y scan_scene) (sx p) (sy p) < 150)
          (planet_group scan_scene)"
    by (simp add: scan_scene_fields dist_lt_150)
  then have "scan host0 gfx0 scan_scene =
      jumpSector host0 gfx0
        (scan_scene\<lparr>scanRing := \<lparr>ring_visible = True, ring_x = player_x scan_scene,
                                 ring_y = player_y scan_scene, ring_radius = 10\<rparr>,
                    p_discoveries := p_discoveries scan_scene + 1,
                    events := events scan_scene @
                      [UpdateHud (Some (p_discoveries scan_scene + 1)) None None]\<rparr>)"
    by (simp add: scan_cases Let_def scan_scene_fields(1))
  then have "p_discoveries (scan host0 gfx0 scan_scene) = 5
      \<and> seed (scan host0 gfx0 scan_scene) = 16807000"
    by (simp add: jumpSector_fields scan_scene_fields js_rem_def)
  moreover have "p_discoveries (hitEnemy 9 7 kill_scene) = 5"
    by (simp add: hitEnemy_kill kill_scene_fields)
  moreover have "enemies (hitEnemy 9 7 kill_scene) = []"
    by (simp add: hitEnemy_def Let_def kill_scene_fields)
  moreover have "events (hitEnemy 9 7 kill_scene) = events kill_scene @ [UpdateHud (Some 5) None None]"
    by (simp add: hitEnemy_def Let_def kill_scene_fields)
  ultimately show ?thesis
    by (simp add: hitEnemy_never_jumps kill_scene_fields scan_scene_fields)
qed

subsection \<open>Hull and game over\<close>

lemma jumpSector_hull_ops:
  "p_hull (jumpSector h g s) = p_hull s" "ops (jumpSector h g s) = ops s"
  by (subst jumpSector_frame, simp)+

lemma scan_hull_ops: "p_hull (scan h g s) = p_hull s \<and> ops (scan h g s) = ops s"
  by (simp add: scan_cases Let_def jumpSector_hull_ops)

lemma fire_hull_ops: "p_hull (fire s) = p_hull s \<and> ops (fire s) = ops s"
  by (simp add: fire_def split: option.split)

lemma shield_hull_ops: "p_hull (shield s) = p_hull s \<and> ops (shield s) = ops s"
  by (simp add: shield_def)

lemma togglePhoto_hull_ops: "p_hull (togglePhoto s) = p_hull s \<and> ops (togglePhoto s) = ops s"
  by (simp add: togglePhoto_def Let_def)

lemma key_actions_hull_ops:
  "p_hull (key_actions h g inp s) = p_hull s
   \<and> ops (key_actions h g inp s) = ops s @ (if just_ESC inp then [ScenePause] else [])"
  by (simp add: key_actions_def Let_def scan_hull_ops fire_hull_ops shield_hull_ops
        togglePhoto_hull_ops)

lemma spawn_hull_ops: "p_hull (spawn h s) = p_hull s \<and> ops (spawn h s) = ops s"
  by (simp add: spawn_def Let_def)

lemma cleanup_hull_ops:
  "p_hull (state_of (cleanup s)) = p_hull s \<and> ops (state_of (cleanup s)) = ops s"
  by (simp add: cleanup_def split: outcome.split)

lemma director_update_hull_ops:
  "p_hull (director_update h g d s) = p_hull s \<and> ops (director_update h g d s) = ops s"
  by (simp add: director_update_cases spawn_hull_ops)

lemma update_hull_ops:
  "p_hull (state_of (update h g inp d s)) = p_hull s
   \<and> ops (state_of (update h g inp d s)) =
       ops s @ (if gamepad inp = None \<and> just_ESC inp then [ScenePause] else [])"
proof (cases "gamepad inp")
  case None
  let ?k = "key_actions h g inp (set_velocity inp s)"
  have k: "p_hull ?k = p_hull s \<and> ops ?k = ops s @ (if just_ESC inp then [ScenePause] else [])"
    by (simp add: key_actions_hull_ops set_velocity_def)
  show ?thesis
  proof (cases "cleanup ?k")
    case (Completed t)
    then have "p_hull t = p_hull ?k \<and> ops t = ops ?k"
      using cleanup_hull_ops [of ?k] by simp
    then show ?thesis
      using k by (simp add: update_phases None Completed director_update_hull_ops)
  next
    case (TypeError t)
    then have "p_hull t = p_hull ?k \<and> ops t = ops ?k"
      using cleanup_hull_ops [of ?k] by simp
    then show ?thesis
      using k by (simp add: update_phases None TypeError)
  qed
next
  case (Some p)
  then show ?thesis by (simp add: update_phases fire_hull_ops)
qed

lemma clock_hull_ops: "p_hull (clock_update d s) = p_hull s \<and> ops (clock_update d s) = ops s"
  by (simp add: clock_update_def Let_def)

lemma hitEnemy_hull_ops: "p_hull (hitEnemy b e s) = p_hull s \<and> ops (hitEnemy b e s) = ops s"
  by (simp add: hitEnemy_def Let_def)

lemma playerHit_hull_ops:
  "p_hull (playerHit e s) = (if p_shield s then p_hull s else p_hull s - 1)
   \<and> ops (playerHit e s) =
       ops s @ (if \<not> p_shield s \<and> p_hull s - 1 \<le> 0 then [SceneStop ''HUD'', SceneStart ''Title''] else [])"
  by (simp add: playerHit_def Let_def gameOver_def)

lemma collide_other:
  "\<not> is_player_overlap ov \<Longrightarrow> p_hull (collide s ov) = p_hull s \<and> ops (collide s ov) = ops s"
  by (cases ov) (simp_all add: hitEnemy_hull_ops)

lemma foldl_collide_other:
  "filter is_player_overlap os = [] \<Longrightarrow>
   p_hull (foldl collide s os) = p_hull s \<and> ops (foldl collide s os) = ops s"
proof (induction os arbitrary: s)
  case Nil
  show ?case by simp
next
  case (Cons ov os)
  then have a: "\<not> is_player_overlap ov" and b: "filter is_player_overlap os = []"
    by (simp_all split: if_splits)
  show ?case using Cons.IH [OF b, of "collide s ov"] collide_other [OF a, of s] by simp
qed

lemma collide_player:
  assumes "1 \<le> p_hull s" "game_overs s = 0"
  shows "0 \<le> p_hull (collide s (PlayerEnemy e))
     \<and> game_overs (collide s (PlayerEnemy e)) = (if p_hull (collide s (PlayerEnemy e)) = 0 then 1 else 0)
     \<and> (p_hull (collide s (PlayerEnemy e)) = 0 \<longrightarrow> ops (collide s (PlayerEnemy e)) \<noteq> [])"
  using assms by (simp add: playerHit_hull_ops game_overs_def)

lemma foldl_collide_inv:
  "length (filter is_player_overlap os) \<le> 1 \<Longrightarrow> 1 \<le> p_hull s \<Longrightarrow> game_overs s = 0 \<Longrightarrow>
   0 \<le> p_hull (foldl collide s os)
   \<and> game_overs (foldl collide s os) = (if p_hull (foldl collide s os) = 0 then 1 else 0)
   \<and> (p_hull (foldl collide s os) = 0 \<longrightarrow> ops (foldl collide s os) \<noteq> [])"
proof (induction os arbitrary: s)
  case Nil
  then show ?case by simp
next
  case (Cons ov os)
  show ?case
  proof (cases "is_player_overlap ov")
    case True
    then obtain e where ov: "ov = PlayerEnemy e" by (cases ov) simp_all
    have r: "filter is_player_overlap os = []" using Cons.prems(1) True by simp
    show ?thesis
      using collide_player [OF Cons.prems(2,3), of e] foldl_collide_other [OF r, of "collide s ov"]
      by (simp add: ov game_overs_def)
  next
    case False
    have "length (filter is_player_overlap os) \<le> 1" using Cons.prems(1) False by simp
    moreover have "1 \<le> p_hull (collide s ov)" "game_overs (collide s ov) = 0"
      using collide_other [OF False, of s] Cons.prems by (simp_all add: game_overs_def)
    ultimately show ?thesis using Cons.IH [of "collide s ov"] by simp
  qed
qed

lemma step_frame_inv:
  assumes "ops s = []" "0 \<le> p_hull s" "p_hull s = 0 \<longrightarrow> ops s \<noteq> []" "player_overlaps f \<le> 1"
  shows "0 \<le> p_hull (step_frame h g s f)
     \<and> game_overs (step_frame h g s f) = (if p_hull (step_frame h g s f) = 0 then 1 else 0)
     \<and> (p_hull (step_frame h g s f) = 0 \<longrightarrow> ops (step_frame h g s f) \<noteq> [])"
proof -
  let ?c = "clock_update (f_delta f) s"
  have "1 \<le> p_hull ?c" "game_overs ?c = 0"
    using assms by (auto simp add: clock_hull_ops game_overs_def)
  then show ?thesis
    using foldl_collide_inv [of "f_overlaps f" ?c] assms(4)
    by (simp add: step_frame_def update_hull_ops player_overlaps_def game_overs_def)
qed

lemma run_inv:
  "list_all (\<lambda>f. player_overlaps f \<le> 1) fs \<Longrightarrow> 0 \<le> p_hull s \<Longrightarrow>
   game_overs s = (if p_hull s = 0 then 1 else 0) \<Longrightarrow> (p_hull s = 0 \<longrightarrow> ops s \<noteq> []) \<Longrightarrow>
   0 \<le> p_hull (run h g s fs)
   \<and> game_overs (run h g s fs) = (if p_hull (run h g s fs) = 0 then 1 else 0)"
proof (induction fs arbitrary: s)
  case Nil
  then show ?case by simp
next
  case (Cons f fs)
  show ?case
  proof (cases "ops s = []")
    case True
    have "player_overlaps f \<le> 1" "list_all (\<lambda>f. player_overlaps f \<le> 1) fs"
      using Cons.prems(1) by simp_all
    then show ?thesis
      using step_frame_inv [OF True Cons.prems(2) Cons.prems(4), of f h g] Cons.IH [of "step_frame h g s f"] True
      by simp
  next
    case False
    then show ?thesis using Cons.prems by simp
  qed
qed

text \<open>
  C4, as the code has it. In a play session in which no frame resolves more than one
  player-enemy collision, the hull is never negative in any state the session reaches,
  at most one GameOver transition is requested, and one has been requested exactly when
  the hull has reached 0.
\<close>

theorem C4_hull_floor_single_collisions:
  "list_all (\<lambda>f. player_overlaps f \<le> 1) fs \<Longrightarrow>
   0 \<le> p_hull (run h g (create h g w ht) fs)
   \<and> game_overs (run h g (create h g w ht) fs) \<le> 1
   \<and> (p_hull (run h g (create h g w ht) fs) \<le> 0) = (game_overs (run h g (create h g w ht) fs) = 1)"
  using run_inv [of fs "create h g w ht" h g]
  by (simp add: create_fields game_overs_def)

theorem C4_hull_floor_witness:
  "list_all (\<lambda>f. player_overlaps f \<le> 1) single_hit_frames
   \<and> 0 \<le> p_hull (run host0 gfx0 (create host0 gfx0 800 600) single_hit_frames)
   \<and> game_overs (run host0 gfx0 (create host0 gfx0 800 600) single_hit_frames) \<le> 1
   \<and> (p_hull (run host0 gfx0 (create host0 gfx0 800 600) single_hit_frames) \<le> 0) =
       (game_overs (run host0 gfx0 (create host0 gfx0 800 600) single_hit_frames) = 1)"
proof -
  have h: "list_all (\<lambda>f. player_overlaps f \<le> 1) single_hit_frames"
    by (simp add: single_hit_frames_def spawn_frame_def hit_frame_def player_overlaps_def)
  show ?thesis
    using h C4_hull_floor_single_collisions [OF h, of host0 gfx0 800 600] by blast
qed

lemma update_no_input:
  "bullets s = [] \<Longrightarrow>
   update h g no_input d s =
     Completed (director_update h g d (s\<lparr>player_vx := 0, player_vy := 0, bullets := []\<rparr>))"
  by (simp add: update_phases key_actions_def set_velocity_def move_velocity_def
       cleanup_def no_input_def Let_def)

text \<open>
  C4, as stated, fails. The session starts with \<^verbatim>\<open>create\<close>; the director spawns three
  batches, the player collides with one enemy of the first and one of the second (hull
  2, then 1), and then with two enemies of the third in one frame. The first of the two
  collisions takes the hull to 0 and requests the GameOver transition, the second takes
  it to -1 and requests the transition again.
\<close>

theorem C4_two_collisions_one_frame:
  "p_hull (run host0 gfx0 scene0 double_hit_frames) = - 1
   \<and> game_overs (run host0 gfx0 scene0 double_hit_frames) = 2"
  by (simp add: double_hit_frames_def spawn_frame_def hit_frame_def step_frame_def update_no_input
       clock_update_def director_update_cases period_gfx0 spawn_def playerHit_def gameOver_def
       Let_def upt_0_3 new_enemy_def addMultiple_def physics_group_defaults_def scene0_def
       create_fields game_overs_def host0_def)

subsection \<open>The bullet group in a session\<close>

lemma pool_inv_mono:
  "pool_inv s \<Longrightarrow> bullets_maxSize t = bullets_maxSize s \<Longrightarrow>
   set (bullets t) \<subseteq> set (bullets s) \<Longrightarrow> next_id s \<le> next_id t \<Longrightarrow> pool_inv t"
  by (fastforce simp add: pool_inv_def list_all_iff)

lemma jumpSector_pool:
  "bullets (jumpSector h g s) = bullets s"
  "bullets_maxSize (jumpSector h g s) = bullets_maxSize s"
  "next_id (jumpSector h g s) = next_id s"
  by (subst jumpSector_frame, simp)+

lemma pool_inv_scan: "pool_inv s \<Longrightarrow> pool_inv (scan h g s)"
  by (erule pool_inv_mono) (simp_all add: scan_cases Let_def jumpSector_pool)

lemma pool_inv_shield: "pool_inv s \<Longrightarrow> pool_inv (shield s)"
  by (erule pool_inv_mono) (simp_all add: shield_def)

lemma pool_inv_togglePhoto: "pool_inv s \<Longrightarrow> pool_inv (togglePhoto s)"
  by (erule pool_inv_mono) (simp_all add: togglePhoto_def Let_def)

lemma pool_inv_key_actions: "pool_inv s \<Longrightarrow> pool_inv (key_actions h g inp s)"
proof -
  assume s: "pool_inv s"
  have p: "pool_inv t \<Longrightarrow> pool_inv (t\<lparr>ops := x\<rparr>)" for t x
    by (simp add: pool_inv_def)
  show ?thesis
    using s
    by (simp add: key_actions_def Let_def pool_inv_fire pool_inv_scan pool_inv_shield
          pool_inv_togglePhoto p)
qed

lemma set_cleanup_loop: "set (state_of (cleanup_loop n i bs)) \<subseteq> set bs"
proof (induction n arbitrary: i bs)
  case 0
  show ?case by simp
next
  case (Suc n)
  have "set (take i bs @ drop (Suc i) bs) \<subseteq> set bs"
    using set_take_subset [of i bs] set_drop_subset [of "Suc i" bs] by auto
  then show ?case
    using Suc [of "Suc i" "take i bs @ drop (Suc i) bs"] Suc [of "Suc i" bs] by auto
qed

lemma pool_inv_cleanup: "pool_inv s \<Longrightarrow> pool_inv (state_of (cleanup s))"
proof (erule pool_inv_mono)
  show "bullets_maxSize (state_of (cleanup s)) = bullets_maxSize s"
    by (simp add: cleanup_def split: outcome.split)
  show "next_id s \<le> next_id (state_of (cleanup s))"
    by (simp add: cleanup_def split: outcome.split)
  show "set (bullets (state_of (cleanup s))) \<subseteq> set (bullets s)"
    using set_cleanup_loop [of "length (bullets s)" 0 "bullets s"]
    by (cases "cleanup_loop (length (bullets s)) 0 (bullets s)") (simp_all add: cleanup_def)
qed

lemma pool_inv_director_update: "pool_inv s \<Longrightarrow> pool_inv (director_update h g d s)"
  by (erule pool_inv_mono) (simp_all add: director_update_cases spawn_def Let_def)

lemma pool_inv_update: "pool_inv s \<Longrightarrow> pool_inv (state_of (update h g inp d s))"
proof (cases "gamepad inp")
  case None
  assume s: "pool_inv s"
  have "pool_inv (set_velocity inp s)"
    using s by (simp add: pool_inv_def set_velocity_def)
  then have k: "pool_inv (state_of (cleanup (key_actions h g inp (set_velocity inp s))))"
    by (intro pool_inv_cleanup pool_inv_key_actions)
  show ?thesis
  proof (cases "cleanup (key_actions h g inp (set_velocity inp s))")
    case (Completed t)
    then show ?thesis using k by (simp add: update_phases None pool_inv_director_update)
  next
    case (TypeError t)
    then show ?thesis using k by (simp add: update_phases None)
  qed
next
  case (Some p)
  assume "pool_inv s"
  then show ?thesis by (simp add: update_phases Some pool_inv_fire)
qed

lemma pool_inv_clock: "pool_inv s \<Longrightarrow> pool_inv (clock_update d s)"
  by (erule pool_inv_mono) (simp_all add: clock_update_def Let_def)

lemma pool_inv_collide: "pool_inv s \<Longrightarrow> pool_inv (collide s ov)"
proof (erule pool_inv_mono)
  show "bullets_maxSize (collide s ov) = bullets_maxSize s"
    by (cases ov) (simp_all add: hitEnemy_def playerHit_def gameOver_def Let_def)
  show "next_id s \<le> next_id (collide s ov)"
    by (cases ov) (simp_all add: hitEnemy_def playerHit_def gameOver_def Let_def)
  show "set (bullets (collide s ov)) \<subseteq> set (bullets s)"
    by (cases ov) (auto simp add: hitEnemy_def playerHit_def gameOver_def Let_def)
qed

lemma pool_inv_collisions: "pool_inv s \<Longrightarrow> pool_inv (foldl collide s os)"
  by (induction os arbitrary: s) (simp_all add: pool_inv_collide)

lemma pool_inv_step_frame: "pool_inv s \<Longrightarrow> pool_inv (step_frame h g s f)"
  by (simp add: step_frame_def pool_inv_update pool_inv_collisions pool_inv_clock)

lemma pool_inv_run_from: "pool_inv s \<Longrightarrow> pool_inv (run h g s fs)"
  by (induction fs arbitrary: s) (simp_all add: pool_inv_step_frame)

lemma pool_inv_run: "pool_inv (run h g (create h g w ht) fs)"
  by (simp add: pool_inv_run_from pool_inv_create)

lemma group_get_pool:
  "pool_inv t \<Longrightarrow>
   group_get (bullets_maxSize t) (next_id t) (player_x t) (player_y t - 20) (bullets t) \<noteq> None"
  by (simp add: pool_inv_def group_get_def split: option.split)

text \<open>
  C8, as stated, fails: the bullet collection is not bounded. However large a bound is
  chosen, that many fire requests plus one after \<^verbatim>\<open>create\<close> leave more projectiles
  than the bound.
\<close>

theorem C8_bullets_unbounded:
  "\<not> (\<exists>B. \<forall>n. length (bullets ((fire ^^ n) scene0)) \<le> B)"
proof
  assume "\<exists>B. \<forall>n. length (bullets ((fire ^^ n) scene0)) \<le> B"
  then obtain B where b: "\<forall>n. length (bullets ((fire ^^ n) scene0)) \<le> B" ..
  have "length (bullets ((fire ^^ Suc B) scene0)) = Suc B"
    using fire_pow [OF pool_inv_create, of "Suc B" host0 gfx0 800 600]
    by (simp add: scene0_def create_fields)
  with b [rule_format, of "Suc B"] show False by simp
qed

text \<open>
  C8, as the code has it. \<^verbatim>\<open>fire\<close> takes one projectile from the scene's bullet group
  and puts it at \<open>(player.x, player.y - 20)\<close> with velocity \<open>(0, -300)\<close>; when the group
  yields none, the request is dropped and the scene is unchanged. The group is created
  without a size limit and stays so in every state a session reaches, whatever the
  frames: the group is never exhausted there, every fire request adds a projectile, and
  \<open>n\<close> requests add \<open>n\<close> projectiles.
\<close>

theorem C8_fire:
  "(group_get (bullets_maxSize s) (next_id s) (player_x s) (player_y s - 20) (bullets s) = None
      \<longrightarrow> fire s = s)
   \<and> (pool_inv t \<longrightarrow>
        fire t =
          t\<lparr>bullets := bullets t @
               [\<lparr>bid = next_id t, bx = player_x t, by' = player_y t - 20, bvx = 0,
                 bvy = - 300, bactive = True, bvisible = True\<rparr>],
            next_id := Suc (next_id t)\<rparr>
        \<and> pool_inv (fire t)
        \<and> group_get (bullets_maxSize t) (next_id t) (player_x t) (player_y t - 20) (bullets t)
            \<noteq> None)
   \<and> pool_inv (create h g w ht)
   \<and> pool_inv ((fire ^^ n) (create h g w ht))
   \<and> length (bullets ((fire ^^ n) (create h g w ht))) = n
   \<and> pool_inv (run h g (create h g w ht) fs)
   \<and> length (bullets ((fire ^^ n) (run h g (create h g w ht) fs))) =
       length (bullets (run h g (create h g w ht) fs)) + n"
proof -
  have "group_get (bullets_maxSize s) (next_id s) (player_x s) (player_y s - 20) (bullets s) = None
      \<longrightarrow> fire s = s"
    by (simp add: fire_def)
  moreover have "length (bullets ((fire ^^ n) (create h g w ht))) = n"
    using fire_pow [OF pool_inv_create, of n h g w ht] by (simp add: create_fields)
  moreover have "length (bullets ((fire ^^ n) (run h g (create h g w ht) fs))) =
       length (bullets (run h g (create h g w ht) fs)) + n"
    using fire_pow [OF pool_inv_run, of n h g w ht fs] by simp
  ultimately show ?thesis
    using fire_pool [of t] pool_inv_fire [of t] group_get_pool [of t]
      pool_inv_create [of h g w ht] pool_inv_run [of h g w ht fs]
      fire_pow [OF pool_inv_create, of n h g w ht]
    by blast
qed

theorem C8_fire_witness:
  "group_get (bullets_maxSize full_pool_scene) (next_id full_pool_scene)
     (player_x full_pool_scene) (player_y full_pool_scene - 20) (bullets full_pool_scene) = None
   \<and> fire full_pool_scene = full_pool_scene
   \<and> pool_inv scene0
   \<and> bullets (fire scene0) =
       [\<lparr>bid = 0, bx = 400, by' = 400, bvx = 0, bvy = - 300, bactive = True, bvisible = True\<rparr>]
   \<and> length (bullets ((fire ^^ 4) scene0)) = 4
   \<and> pool_inv (run host0 gfx0 scene0 single_hit_frames)"
proof -
  have e: "group_get (bullets_maxSize full_pool_scene) (next_id full_pool_scene)
     (player_x full_pool_scene) (player_y full_pool_scene - 20) (bullets full_pool_scene) = None"
    by (simp add: full_pool_scene_def group_get_def)
  have p: "pool_inv scene0"
    by (simp add: scene0_def pool_inv_create)
  note c = C8_fire [of full_pool_scene scene0 host0 gfx0 800 600 4 single_hit_frames]
  have "fire full_pool_scene = full_pool_scene"
    using c e by blast
  moreover have "bullets (fire scene0) =
       [\<lparr>bid = 0, bx = 400, by' = 400, bvx = 0, bvy = - 300, bactive = True, bvisible = True\<rparr>]"
  proof -
    have "fire scene0 =
          scene0\<lparr>bullets := bullets scene0 @
               [\<lparr>bid = next_id scene0, bx = player_x scene0, by' = player_y scene0 - 20, bvx = 0,
                 bvy = - 300, bactive = True, bvisible = True\<rparr>],
            next_id := Suc (next_id scene0)\<rparr>"
      using c p by blast
    then show ?thesis by (simp add: scene0_def create_fields)
  qed
  moreover have "length (bullets ((fire ^^ 4) scene0)) = 4"
    using c by (simp add: scene0_def)
  moreover have "pool_inv (run host0 gfx0 scene0 single_hit_frames)"
    using c by (simp add: scene0_def)
  ultimately show ?thesis using e p by blast
qed

subsection \<open>The sector generator\<close>

text \<open>
  Stars, galaxies, the sector's name, and the position and scale of every planet and
  the position and alpha of every nebula are functions of the seed alone
  (\<open>SectorFactory_seeded\<close>); the tint of the first planet is the first colour the
  framework hands out (\<open>first_planet_tint\<close>).
\<close>

lemma snd_rand: "snd (snd (rand g)) = snd g"
  by (simp add: rand_def split_def)

lemma push_loop_keeps:
  assumes "\<And>g. snd (snd (body g)) = snd g"
  shows "snd (snd (push_loop n body g)) = snd g"
  by (induction n arbitrary: g) (simp_all add: split_def assms)

lemma snd_new_layer: "snd (snd (new_layer l g)) = snd g"
  unfolding new_layer_def
  by (rule push_loop_keeps) (simp add: new_star_def split_def snd_rand)

lemma tint_new_planet: "planet_tint (fst (new_planet rgb g)) = rgb (snd g)"
  by (simp add: new_planet_def split_def RandomRGB_def snd_rand)

lemma first_planet_tint:
  "map planet_tint (take 1 (planets (SectorFactory sd rgb))) = [rgb 0]"
  by (simp add: SectorFactory_def Let_def split_def tint_new_planet snd_rand snd_new_layer)

lemma new_planet_seeded:
  "snd (new_planet rgb g) = snd (new_planet rgb' g)
   \<and> planet_geometry (fst (new_planet rgb g)) = planet_geometry (fst (new_planet rgb' g))"
  by (simp add: new_planet_def split_def RandomRGB_def planet_geometry_def)

lemma new_nebula_seeded:
  "snd (new_nebula rgb g) = snd (new_nebula rgb' g)
   \<and> nebula_geometry (fst (new_nebula rgb g)) = nebula_geometry (fst (new_nebula rgb' g))"
  by (simp add: new_nebula_def split_def RandomRGB_def nebula_geometry_def rand_def)

lemma push_loop_seeded:
  assumes "\<And>g. snd (b1 g) = snd (b2 g) \<and> f (fst (b1 g)) = f (fst (b2 g))"
  shows "snd (push_loop n b1 g) = snd (push_loop n b2 g)
     \<and> map f (fst (push_loop n b1 g)) = map f (fst (push_loop n b2 g))"
proof (induction n arbitrary: g)
  case 0
  show ?case by simp
next
  case (Suc n)
  show ?case using Suc [of "snd (b2 g)"] assms [of g] by (simp add: split_def)
qed

lemma SectorFactory_seeded:
  "stars (SectorFactory sd rgb) = stars (SectorFactory sd rgb')
   \<and> galaxies (SectorFactory sd rgb) = galaxies (SectorFactory sd rgb')
   \<and> map planet_geometry (planets (SectorFactory sd rgb)) =
       map planet_geometry (planets (SectorFactory sd rgb'))
   \<and> map nebula_geometry (nebulae (SectorFactory sd rgb)) =
       map nebula_geometry (nebulae (SectorFactory sd rgb'))
   \<and> name (SectorFactory sd rgb) = name (SectorFactory sd rgb')"
proof -
  define g1 where "g1 = snd (new_layer 2 (snd (new_layer 1 (snd (new_layer 0 (mulberry32_init sd, 0 :: nat))))))"
  define pc where "pc = 1 + nat \<lfloor>fst (rand g1) * 2\<rfloor>"
  define g3 where "g3 c = snd (push_loop pc (new_planet c) (snd (rand g1)))" for c
  define gc where "gc c = nat \<lfloor>fst (rand (g3 c)) * 2\<rfloor>" for c
  define g5 where "g5 c = snd (push_loop (gc c) new_galaxy (snd (rand (g3 c))))" for c
  define nc where "nc c = 1 + nat \<lfloor>fst (rand (g5 c)) * 2\<rfloor>" for c
  have p: "planets (SectorFactory sd c) = fst (push_loop pc (new_planet c) (snd (rand g1)))" for c
    by (simp add: SectorFactory_def Let_def split_def g1_def pc_def)
  have g: "galaxies (SectorFactory sd c) = fst (push_loop (gc c) new_galaxy (snd (rand (g3 c))))" for c
    by (simp add: SectorFactory_def Let_def split_def g1_def pc_def g3_def gc_def)
  have n: "nebulae (SectorFactory sd c) = fst (push_loop (nc c) (new_nebula c) (snd (rand (g5 c))))" for c
    by (simp add: SectorFactory_def Let_def split_def g1_def pc_def g3_def gc_def g5_def nc_def)
  have s: "stars (SectorFactory sd rgb) = stars (SectorFactory sd rgb')"
    by (simp add: SectorFactory_def Let_def split_def)
  have nm: "name (SectorFactory sd rgb) = name (SectorFactory sd rgb')"
    by (simp add: SectorFactory_def Let_def split_def)
  have e3: "g3 rgb = g3 rgb'"
    unfolding g3_def using push_loop_seeded [of "new_planet rgb" "new_planet rgb'" planet_geometry]
    by (simp add: new_planet_seeded)
  then have e5: "g5 rgb = g5 rgb'" and ec: "gc rgb = gc rgb'"
    by (simp_all add: g5_def gc_def)
  then have en: "nc rgb = nc rgb'"
    by (simp add: nc_def)
  have "map planet_geometry (planets (SectorFactory sd rgb)) =
       map planet_geometry (planets (SectorFactory sd rgb'))"
    unfolding p using push_loop_seeded [of "new_planet rgb" "new_planet rgb'" planet_geometry]
    by (simp add: new_planet_seeded)
  moreover have "galaxies (SectorFactory sd rgb) = galaxies (SectorFactory sd rgb')"
    by (simp add: g e3 ec)
  moreover have "map nebula_geometry (nebulae (SectorFactory sd rgb)) =
       map nebula_geometry (nebulae (SectorFactory sd rgb'))"
    unfolding n e5 en using push_loop_seeded [of "new_nebula rgb" "new_nebula rgb'" nebula_geometry]
    by (simp add: new_nebula_seeded)
  ultimately show ?thesis using s nm by simp
qed

text \<open>
  C2 at seed 1000. Two invocations of the factory with the same seed, one while the
  framework's \<^verbatim>\<open>RandomRGB\<close> yields the colour 0 and one while it yields the colour
  255, give first planets of tint 0 and of tint 255: the two sectors are not equal. The
  tint of a planet and the colour of a nebula are not drawn from the seeded generator.
\<close>

theorem C2_same_seed_different_tint:
  "map planet_tint (take 1 (planets (SectorFactory 1000 (\<lambda>k. 0)))) = [0]
   \<and> map planet_tint (take 1 (planets (SectorFactory 1000 (\<lambda>k. 255)))) = [255]
   \<and> SectorFactory 1000 (\<lambda>k. 0) \<noteq> SectorFactory 1000 (\<lambda>k. 255)"
proof -
  have a: "map planet_tint (take 1 (planets (SectorFactory 1000 (\<lambda>k. 0)))) = [0]"
    by (simp only: first_planet_tint)
  have b: "map planet_tint (take 1 (planets (SectorFactory 1000 (\<lambda>k. 255)))) = [255]"
    by (simp only: first_planet_tint)
  from a b have "SectorFactory 1000 (\<lambda>k. 0) \<noteq> SectorFactory 1000 (\<lambda>k. 255)"
    by (metis list.inject zero_neq_numeral)
  with a b show ?thesis by blast
qed


end
